theory Spec2Isabelle
  imports Main
begin

section \<open>JavaScript values and strings\<close>

text \<open>
  The values a JSON request body carries for a condition, an update or an insert:
  scalars only. \<open>JUndefined\<close> is a key that is absent from the body. Numbers are
  restricted to integers, printed with all their digits (JavaScript switches to exponent
  notation from \<open>10\<^sup>2\<^sup>1\<close> on).
\<close>

datatype jsval = JUndefined | JNull | JBool bool | JNum int | JStr string

definition digit_char :: "nat \<Rightarrow> char" where
  "digit_char n = ''0123456789'' ! n"

fun show_nat :: "nat \<Rightarrow> string" where
  "show_nat n = (if n < 10 then [digit_char n] else show_nat (n div 10) @ [digit_char (n mod 10)])"

declare show_nat.simps [simp del]

text \<open>What a template literal \<^verbatim>\<open>`${v}`\<close> makes of a value.\<close>

fun js_string :: "jsval \<Rightarrow> string" where
  "js_string JUndefined = ''undefined''"
| "js_string JNull = ''null''"
| "js_string (JBool b) = (if b then ''true'' else ''false'')"
| "js_string (JNum n) = (if n < 0 then ''-'' @ show_nat (nat (- n)) else show_nat (nat n))"
| "js_string (JStr s) = s"

text \<open>\<^verbatim>\<open>String.prototype.toLowerCase\<close>, on ASCII.\<close>

definition lower_char :: "char \<Rightarrow> char" where
  "lower_char c =
     (case map_of (zip ''ABCDEFGHIJKLMNOPQRSTUVWXYZ'' ''abcdefghijklmnopqrstuvwxyz'') c of
        Some l \<Rightarrow> l
      | None \<Rightarrow> c)"

definition toLowerCase :: "string \<Rightarrow> string" where
  "toLowerCase s = map lower_char s"

text \<open>\<^verbatim>\<open>Array.prototype.join\<close> on strings.\<close>

fun join_with :: "string \<Rightarrow> string list \<Rightarrow> string" where
  "join_with sep [] = []"
| "join_with sep [x] = x"
| "join_with sep (x # y # ys) = x @ sep @ join_with sep (y # ys)"

text \<open>
  \<^verbatim>\<open>String.prototype.split\<close> with a one-character separator: the first piece and the
  pieces after it (the result is never empty).
\<close>

fun split_on :: "char \<Rightarrow> string \<Rightarrow> string \<times> string list" where
  "split_on sep [] = ([], [])"
| "split_on sep (x # xs) =
     (case split_on sep xs of
        (w, ws) \<Rightarrow> if x = sep then ([], w # ws) else (x # w, ws))"

definition split :: "char \<Rightarrow> string \<Rightarrow> string list" where
  "split sep s = (case split_on sep s of (w, ws) \<Rightarrow> w # ws)"

text \<open>An array element by index: \<^verbatim>\<open>undefined\<close> past the end.\<close>

fun item :: "'a list \<Rightarrow> nat \<Rightarrow> 'a option" where
  "item [] n = None"
| "item (x # xs) 0 = Some x"
| "item (x # xs) (Suc n) = item xs n"

text \<open>\<^verbatim>\<open>x || null\<close> on an optional string: the empty string is falsy.\<close>

definition or_null :: "string option \<Rightarrow> string option" where
  "or_null x = (case x of Some s \<Rightarrow> (if s = [] then None else Some s) | None \<Rightarrow> None)"

text \<open>\<^verbatim>\<open>[...new Set(xs)]\<close>: the first occurrence of each element, in order.\<close>

definition distinct_in_order :: "'a list \<Rightarrow> 'a list" where
  "distinct_in_order xs = rev (remdups (rev xs))"

text \<open>
  A JavaScript object is the list of its entries in insertion order.
  \<^verbatim>\<open>Object.fromEntries\<close> keeps the place of a key's first entry and the value of
  its last one. (JavaScript lists integer-like keys first; column names are taken not to
  be integers.)
\<close>

type_synonym 'v obj = "(string \<times> 'v) list"

fun obj_set :: "string \<Rightarrow> 'v \<Rightarrow> 'v obj \<Rightarrow> 'v obj" where
  "obj_set k v [] = [(k, v)]"
| "obj_set k v (p # ps) = (if fst p = k then (k, v) # ps else p # obj_set k v ps)"

definition fromEntries :: "(string \<times> 'v) list \<Rightarrow> 'v obj" where
  "fromEntries es = foldl (\<lambda>acc e. obj_set (fst e) (snd e) acc) [] es"

definition keys :: "'v obj \<Rightarrow> string list" where
  "keys ob = map fst ob"

text \<open>\<^verbatim>\<open>obj[key]\<close>: \<^verbatim>\<open>undefined\<close> for a key the object does not have.\<close>

definition js_get :: "jsval obj \<Rightarrow> string \<Rightarrow> jsval" where
  "js_get ob k = (case map_of ob k of Some v \<Rightarrow> v | None \<Rightarrow> JUndefined)"

section \<open>The request model of the query builder\<close>

record condition =
  cfield :: string
  coperator :: string
  cvalue :: jsval

record join =
  fromTable :: string
  toTable :: string
  fromColumn :: string
  toColumn :: string
  joinType :: string

text \<open>
  The body of \<^verbatim>\<open>POST /query\<close> after the handler's destructuring defaults
  (\<^verbatim>\<open>fields = [], joins = [], conditions = [], updates = {}\<close>). An absent or empty
  \<^verbatim>\<open>table\<close> is the empty string (both are falsy); \<open>data\<close> is \<open>None\<close> when the
  body has no truthy \<^verbatim>\<open>data\<close>.
\<close>

record request =
  operation :: string
  table :: string
  req_fields :: "string list"
  joins :: "join list"
  conditions :: "condition list"
  updates :: "jsval obj"
  data :: "jsval obj option"

section \<open>The knex query builder, as the description of the statement it holds\<close>

text \<open>
  Identifiers (table, columns, operators, join clauses) make the statement; the values
  travel beside it as bindings. \<open>Select\<close>, \<open>Insert\<close>, \<open>Update\<close>, \<open>Delete\<close> and
  \<open>Count\<close> are the builder's \<^verbatim>\<open>select\<close>, \<^verbatim>\<open>insert\<close>, \<^verbatim>\<open>update\<close>,
  \<^verbatim>\<open>del\<close> and \<^verbatim>\<open>count\<close>.
\<close>

datatype action =
    NoAction
  | Select "string list"
  | Insert "jsval obj"
  | Update "jsval obj"
  | Delete
  | Count

record join_clause =
  jc_method :: string
  jc_table :: string
  jc_left :: string
  jc_right :: string

record query =
  q_table :: string
  q_joins :: "join_clause list"
  q_action :: action
  q_wheres :: "(string \<times> string \<times> jsval) list"

definition db :: "string \<Rightarrow> query" where
  "db t = \<lparr>q_table = t, q_joins = [], q_action = NoAction, q_wheres = []\<rparr>"

definition knex_where :: "string \<Rightarrow> string \<Rightarrow> jsval \<Rightarrow> query \<Rightarrow> query" where
  "knex_where f op v q = q\<lparr>q_wheres := q_wheres q @ [(f, op, v)]\<rparr>"

section \<open>The storage engine and the HTTP response\<close>

record db_error =
  err_code :: string
  err_message :: string

text \<open>
  What the handlers need of their surroundings: which method names the knex builder
  has, the rows of the primary-key lookup in \<^verbatim>\<open>information_schema\<close>, and what
  the engine answers to a built statement, to a count and to a raw SQL text.
\<close>

record 'r env =
  has_method :: "string \<Rightarrow> bool"
  pk_rows :: "string \<Rightarrow> db_error + string list"
  run :: "query \<Rightarrow> db_error + 'r"
  run_count :: "query \<Rightarrow> db_error + nat"
  run_raw :: "string \<Rightarrow> db_error + 'r"

datatype db_call = PkLookup string | Run query | RunRaw string

datatype 'r body =
    ErrorBody string
  | ErrorDetailBody string string
  | ResultBody 'r
  | CountBody nat
  | SqlSuccess 'r
  | SqlFailure string "db_error option"

datatype 'r response = Response nat "'r body"

text \<open>How a handler leaves its \<^verbatim>\<open>switch\<close>: by a throw, a response, or a statement.\<close>

datatype 'r outcome = Thrown string | Responded "'r response" | Ready query

text \<open>\<^verbatim>\<open>err.message || fallback\<close>.\<close>

definition or_else :: "string \<Rightarrow> string \<Rightarrow> string" where
  "or_else msg fallback = (if msg = [] then fallback else msg)"

section \<open>\<^verbatim>\<open>POST /query\<close>\<close>

fun apply_joins :: "(string \<Rightarrow> bool) \<Rightarrow> query \<Rightarrow> join list \<Rightarrow> string + query" where
  "apply_joins has q [] = Inr q"
| "apply_joins has q (j # js) =
     (let method = toLowerCase (joinType j) @ ''Join'' in
      if \<not> has method then Inl (''Invalid join type: '' @ joinType j)
      else apply_joins has
        (q\<lparr>q_joins := q_joins q @
           [\<lparr>jc_method = method, jc_table = toTable j,
             jc_left = fromTable j @ ''.'' @ fromColumn j,
             jc_right = toTable j @ ''.'' @ toColumn j\<rparr>]\<rparr>) js)"

fun select_wheres :: "condition list \<Rightarrow> query \<Rightarrow> query" where
  "select_wheres [] q = q"
| "select_wheres (c # cs) q =
     select_wheres cs
       (if coperator c = ''LIKE''
        then knex_where (cfield c) (coperator c) (JStr (''%'' @ js_string (cvalue c) @ ''%'')) q
        else knex_where (cfield c) (coperator c) (cvalue c) q)"

fun plain_wheres :: "condition list \<Rightarrow> query \<Rightarrow> query" where
  "plain_wheres [] q = q"
| "plain_wheres (c # cs) q = plain_wheres cs (knex_where (cfield c) (coperator c) (cvalue c) q)"

definition safeUpdates :: "string list \<Rightarrow> jsval obj \<Rightarrow> jsval obj" where
  "safeUpdates pkCols ups = fromEntries (filter (\<lambda>e. fst e \<notin> set pkCols) ups)"

definition refusal :: "string list \<Rightarrow> string" where
  "refusal pkCols =
     ''Refusing to update primary-key column(s) '' @ join_with '', '' pkCols @ ''. '' @
     ''Modify non-key columns or use a controlled cascade procedure instead.''"

definition toInsert :: "request \<Rightarrow> jsval obj" where
  "toInsert req =
     (case data req of
        Some d \<Rightarrow> d
      | None \<Rightarrow> fromEntries (map (\<lambda>c. (cfield c, cvalue c)) (conditions req)))"

definition operation_switch :: "'r env \<Rightarrow> request \<Rightarrow> query \<Rightarrow> db_call list \<times> 'r outcome" where
  "operation_switch env req q =
     (if operation req = ''SELECT'' then
        ([], Ready (select_wheres (conditions req)
                (q\<lparr>q_action := Select (if req_fields req = [] then [''*''] else req_fields req)\<rparr>)))
      else if operation req = ''INSERT'' then
        (if keys (toInsert req) = [] then ([], Thrown ''No values supplied for INSERT'')
         else ([], Ready (q\<lparr>q_action := Insert (toInsert req)\<rparr>)))
      else if operation req = ''UPDATE'' then
        (case pk_rows env (table req) of
           Inl e \<Rightarrow> ([PkLookup (table req)], Thrown (err_message e))
         | Inr pkCols \<Rightarrow>
             (if keys (safeUpdates pkCols (updates req)) = [] then
                ([PkLookup (table req)], Responded (Response 400 (ErrorBody (refusal pkCols))))
              else if keys (updates req) = [] then
                ([PkLookup (table req)], Thrown ''No column values supplied for UPDATE'')
              else if conditions req = [] then
                ([PkLookup (table req)], Thrown ''Refusing to UPDATE without WHERE clause'')
              else
                ([PkLookup (table req)],
                 Ready (plain_wheres (conditions req)
                   (q\<lparr>q_action := Update (safeUpdates pkCols (updates req))\<rparr>)))))
      else if operation req = ''DELETE'' then
        (if conditions req = [] then ([], Thrown ''Refusing to DELETE without WHERE clause'')
         else ([], Ready ((plain_wheres (conditions req) q)\<lparr>q_action := Delete\<rparr>)))
      else ([], Thrown (''Unsupported operation: '' @ operation req)))"

definition execute :: "'r env \<Rightarrow> db_call list \<Rightarrow> query \<Rightarrow> db_call list \<times> 'r response" where
  "execute env calls q =
     (case run env q of
        Inr result \<Rightarrow> (calls @ [Run q], Response 200 (ResultBody result))
      | Inl e \<Rightarrow>
          (if err_code e = ''ER_ROW_IS_REFERENCED_2'' \<or> err_code e = ''ER_ROW_IS_REFERENCED''
           then (calls @ [Run q],
                 Response 409 (ErrorDetailBody ''Delete blocked by foreign-key constraint''
                   (err_message e)))
           else (calls @ [Run q],
                 Response 500 (ErrorBody (or_else (err_message e) ''Failed to execute query'')))))"

definition post_query :: "'r env \<Rightarrow> request \<Rightarrow> db_call list \<times> 'r response" where
  "post_query env req =
     (if table req = [] then
        ([], Response 500 (ErrorBody ''Table not specified''))
      else
        (case apply_joins (has_method env) (db (table req)) (joins req) of
           Inl msg \<Rightarrow> ([], Response 500 (ErrorBody (or_else msg ''Failed to execute query'')))
         | Inr q \<Rightarrow>
             (case operation_switch env req q of
                (calls, Thrown msg) \<Rightarrow>
                  (calls, Response 500 (ErrorBody (or_else msg ''Failed to execute query'')))
              | (calls, Responded r) \<Rightarrow> (calls, r)
              | (calls, Ready q') \<Rightarrow> execute env calls q')))"

section \<open>\<^verbatim>\<open>POST /count\<close>, \<^verbatim>\<open>GET /count\<close> and \<^verbatim>\<open>POST /sql\<close>\<close>

definition validConds :: "condition list \<Rightarrow> condition list" where
  "validConds cs = filter (\<lambda>c. cfield c \<noteq> [] \<and> coperator c \<noteq> [] \<and> cvalue c \<noteq> JUndefined) cs"

definition count_query :: "'r env \<Rightarrow> string \<Rightarrow> condition list \<Rightarrow> db_call list \<times> 'r response" where
  "count_query env t cs =
     (let q = plain_wheres cs ((db t)\<lparr>q_action := Count\<rparr>) in
      case run_count env q of
        Inr cnt \<Rightarrow> ([Run q], Response 200 (CountBody cnt))
      | Inl e \<Rightarrow> ([Run q], Response 500 (ErrorBody (or_else (err_message e) ''Failed to count records''))))"

definition post_count :: "'r env \<Rightarrow> string \<Rightarrow> condition list \<Rightarrow> db_call list \<times> 'r response" where
  "post_count env t cs =
     (if t = [] then ([], Response 400 (ErrorBody ''Table not specified''))
      else if validConds cs = [] then ([], Response 400 (ErrorBody ''No valid conditions supplied''))
      else count_query env t (validConds cs))"

text \<open>
  The query string of \<^verbatim>\<open>GET /count\<close>: \<open>None\<close> when it has no (or an empty)
  \<^verbatim>\<open>conditions\<close> parameter, otherwise what \<^verbatim>\<open>JSON.parse\<close> makes of it, the
  message of its exception on the left.
\<close>

definition get_count ::
  "'r env \<Rightarrow> string \<Rightarrow> (string + condition list) option \<Rightarrow> db_call list \<times> 'r response" where
  "get_count env t param =
     (case (case param of None \<Rightarrow> Inr [] | Some parsed \<Rightarrow> parsed) of
        Inl msg \<Rightarrow> ([], Response 500 (ErrorBody (or_else msg ''Failed to count records'')))
      | Inr cs \<Rightarrow>
          (if t = [] then ([], Response 400 (ErrorBody ''Table not specified''))
           else count_query env t cs))"

text \<open>
  \<^verbatim>\<open>POST /sql\<close> hands the text to \<^verbatim>\<open>db.raw\<close>; the second argument of that call
  (knex reads it as named bindings) is not modelled.
\<close>

fun post_sql :: "'r env \<Rightarrow> jsval \<Rightarrow> db_call list \<times> 'r response" where
  "post_sql env (JStr s) =
     (if s = [] then ([], Response 400 (SqlFailure ''SQL statement is required'' None))
      else case run_raw env s of
        Inr result \<Rightarrow> ([RunRaw s], Response 200 (SqlSuccess result))
      | Inl e \<Rightarrow> ([RunRaw s], Response 500 (SqlFailure (''SQL Error: '' @ err_message e) (Some e))))"
| "post_sql env _ = ([], Response 400 (SqlFailure ''SQL statement is required'' None))"

section \<open>\<^verbatim>\<open>GET /schema\<close>\<close>

record column_info =
  col_name :: string
  col_type :: "string option"
  col_length :: "string option"
  col_nullable :: bool
  col_defaultValue :: "string option"
  col_extra :: "string option"

text \<open>The rows the two catalog queries return.\<close>

record table_row =
  table_name :: string
  column_details :: "string option"
  foreign_keys :: "string option"

record pk_row =
  pk_TABLE_NAME :: string
  primary_keys :: string

text \<open>
  Reading \<^verbatim>\<open>obj[key]\<close> on a plain object such as \<^verbatim>\<open>pkMap\<close>: an own entry, else
  what \<^verbatim>\<open>Object.prototype\<close> holds under that name (a function or object, truthy), else
  \<^verbatim>\<open>undefined\<close>.
\<close>

definition object_prototype_members :: "string list" where
  "object_prototype_members =
     [''constructor'', ''__defineGetter__'', ''__defineSetter__'', ''hasOwnProperty'',
      ''__lookupGetter__'', ''__lookupSetter__'', ''isPrototypeOf'', ''propertyIsEnumerable'',
      ''toString'', ''valueOf'', ''__proto__'', ''toLocaleString'']"

datatype 'v property = Own 'v | Inherited string | Absent

definition get_property :: "'v obj \<Rightarrow> string \<Rightarrow> 'v property" where
  "get_property ob k =
     (case map_of ob k of
        Some v \<Rightarrow> Own v
      | None \<Rightarrow> if k \<in> set object_prototype_members then Inherited k else Absent)"

text \<open>
  The value of \<^verbatim>\<open>primaryKeys\<close> in a table description: a list of column names, or the
  member of \<^verbatim>\<open>Object.prototype\<close> that \<^verbatim>\<open>pkMap[t.table_name]\<close> found.
\<close>

datatype keys_value = KeyList "string list" | PrototypeMember string

text \<open>What the handler answers for one table; a destructured piece that is missing is \<open>None\<close>.\<close>

record fk_edge =
  fk_table :: string
  fk_fromColumn :: "string option"
  fk_toColumn :: "string option"

record schema_entry =
  se_name :: string
  se_columns :: "column_info list"
  se_primaryKeys :: keys_value
  se_relationships :: "fk_edge list"
  se_dependsOn :: "string list"
  se_isIndependentTable :: bool
  se_supportsInsert :: bool

definition parse_column :: "string \<Rightarrow> column_info" where
  "parse_column col =
     (case split_on (CHR '':'') col of
        (nm, rest) \<Rightarrow>
          \<lparr>col_name = nm, col_type = item rest 0, col_length = or_null (item rest 1),
           col_nullable = (item rest 2 = Some ''YES''),
           col_defaultValue = or_null (item rest 3), col_extra = item rest 4\<rparr>)"

definition parse_fk :: "string \<Rightarrow> fk_edge" where
  "parse_fk fk =
     (case split_on (CHR '':'') fk of
        (refTable, rest) \<Rightarrow>
          \<lparr>fk_table = refTable, fk_fromColumn = item rest 0, fk_toColumn = item rest 1\<rparr>)"

text \<open>\<^verbatim>\<open>(s || '').split(',').filter(Boolean)\<close>.\<close>

definition pieces :: "string option \<Rightarrow> string list" where
  "pieces s = filter (\<lambda>p. p \<noteq> []) (split (CHR '','') (case s of Some t \<Rightarrow> t | None \<Rightarrow> []))"

definition pkMap :: "pk_row list \<Rightarrow> (string list) obj" where
  "pkMap pkRows = fromEntries (map (\<lambda>r. (pk_TABLE_NAME r, split (CHR '','') (primary_keys r))) pkRows)"

definition describe_table :: "(string list) obj \<Rightarrow> table_row \<Rightarrow> schema_entry" where
  "describe_table pks t =
     (let cols = map parse_column (pieces (column_details t));
          fks = map parse_fk (pieces (foreign_keys t));
          deps = distinct_in_order (map fk_table fks)
      in \<lparr>se_name = table_name t, se_columns = cols,
           se_primaryKeys =
             (case get_property pks (table_name t) of
                Own ks \<Rightarrow> KeyList ks
              | Inherited m \<Rightarrow> PrototypeMember m
              | Absent \<Rightarrow> KeyList []),
           se_relationships = fks, se_dependsOn = deps,
           se_isIndependentTable = (length deps = 0), se_supportsInsert = True\<rparr>)"

text \<open>
  The handler, given what the two \<^verbatim>\<open>db.raw\<close> calls return: a failure of either is
  answered 500 \<^verbatim>\<open>Failed to fetch database schema\<close>.
\<close>

definition get_schema ::
  "db_error + table_row list \<Rightarrow> db_error + pk_row list \<Rightarrow> nat \<times> (string + schema_entry list)" where
  "get_schema tables pkRows =
     (case tables of
        Inl e \<Rightarrow> (500, Inl ''Failed to fetch database schema'')
      | Inr ts \<Rightarrow>
          (case pkRows of
             Inl e \<Rightarrow> (500, Inl ''Failed to fetch database schema'')
           | Inr ps \<Rightarrow> (200, Inr (map (describe_table (pkMap ps)) ts))))"

section \<open>The catalog the two queries of \<^verbatim>\<open>GET /schema\<close> read\<close>

text \<open>
  The part of \<^verbatim>\<open>information_schema\<close> the queries of \<^verbatim>\<open>GET /schema\<close> select from,
  one entry per base table of the database, its columns, foreign keys and key columns in
  the order the engine concatenates them, and the two queries as functions of it.
  \<^verbatim>\<open>GROUP_CONCAT\<close> separates with a comma, is \<^verbatim>\<open>NULL\<close> over no rows and cuts
  its result after \<^verbatim>\<open>group_concat_max_len\<close> bytes, the engine setting \<open>max_len\<close>
  (1024 unless the server sets it otherwise).
\<close>

record catalog_column =
  COLUMN_NAME :: string
  DATA_TYPE :: string
  CHARACTER_MAXIMUM_LENGTH :: "string option"
  IS_NULLABLE :: string
  COLUMN_DEFAULT :: "string option"
  EXTRA :: "string option"

record catalog_fk =
  REFERENCED_TABLE_NAME :: string
  FK_COLUMN_NAME :: string
  REFERENCED_COLUMN_NAME :: string

record catalog_table =
  TABLE_NAME :: string
  cat_columns :: "catalog_column list"
  cat_foreign_keys :: "catalog_fk list"
  cat_primary :: "string list"

definition coalesce :: "string option \<Rightarrow> string" where
  "coalesce x = (case x of Some s \<Rightarrow> s | None \<Rightarrow> [])"

definition column_detail :: "catalog_column \<Rightarrow> string" where
  "column_detail c =
     COLUMN_NAME c @ '':'' @ DATA_TYPE c @ '':'' @ coalesce (CHARACTER_MAXIMUM_LENGTH c) @ '':'' @
     IS_NULLABLE c @ '':'' @ coalesce (COLUMN_DEFAULT c) @ '':'' @ coalesce (EXTRA c)"

definition fk_detail :: "catalog_fk \<Rightarrow> string" where
  "fk_detail k = REFERENCED_TABLE_NAME k @ '':'' @ FK_COLUMN_NAME k @ '':'' @ REFERENCED_COLUMN_NAME k"

definition default_group_concat_max_len :: nat where
  "default_group_concat_max_len = 1024"

definition group_concat :: "nat \<Rightarrow> string list \<Rightarrow> string option" where
  "group_concat max_len xs = (if xs = [] then None else Some (take max_len (join_with '','' xs)))"

definition tables_query :: "nat \<Rightarrow> catalog_table list \<Rightarrow> table_row list" where
  "tables_query max_len cat =
     map (\<lambda>t. \<lparr>table_name = TABLE_NAME t,
                column_details = group_concat max_len (remdups (map column_detail (cat_columns t))),
                foreign_keys = group_concat max_len (remdups (map fk_detail (cat_foreign_keys t)))\<rparr>) cat"

definition pk_query :: "nat \<Rightarrow> catalog_table list \<Rightarrow> pk_row list" where
  "pk_query max_len cat =
     map (\<lambda>t. \<lparr>pk_TABLE_NAME = TABLE_NAME t,
                primary_keys = take max_len (join_with '','' (cat_primary t))\<rparr>)
       (filter (\<lambda>t. cat_primary t \<noteq> []) cat)"

definition describeSchema :: "nat \<Rightarrow> catalog_table list \<Rightarrow> nat \<times> (string + schema_entry list)" where
  "describeSchema max_len cat =
     get_schema (Inr (tables_query max_len cat)) (Inr (pk_query max_len cat))"

definition clean_name :: "string \<Rightarrow> bool" where
  "clean_name s = (s \<noteq> [] \<and> CHR '','' \<notin> set s \<and> CHR '':'' \<notin> set s)"

definition no_comma :: "string \<Rightarrow> bool" where
  "no_comma s = (CHR '','' \<notin> set s)"

text \<open>
  A catalog table as the engine keeps it, with names the two separators cannot split:
  no column, table or key name holds a comma or a colon, no other selected field holds a
  comma, and primary-key and foreign-key columns are columns of the table.
\<close>

definition well_formed_table :: "catalog_table \<Rightarrow> bool" where
  "well_formed_table t =
     (list_all (\<lambda>c. clean_name (COLUMN_NAME c) \<and> no_comma (DATA_TYPE c)
                   \<and> no_comma (coalesce (CHARACTER_MAXIMUM_LENGTH c)) \<and> no_comma (IS_NULLABLE c)
                   \<and> no_comma (coalesce (COLUMN_DEFAULT c)) \<and> no_comma (coalesce (EXTRA c)))
        (cat_columns t)
      \<and> list_all (\<lambda>k. clean_name (REFERENCED_TABLE_NAME k) \<and> clean_name (FK_COLUMN_NAME k)
                   \<and> no_comma (REFERENCED_COLUMN_NAME k)
                   \<and> FK_COLUMN_NAME k \<in> set (map COLUMN_NAME (cat_columns t)))
        (cat_foreign_keys t)
      \<and> list_all (\<lambda>p. clean_name p \<and> p \<in> set (map COLUMN_NAME (cat_columns t))) (cat_primary t))"

text \<open>The three concatenations of a table fit in \<^verbatim>\<open>group_concat_max_len\<close>: none is cut.\<close>

definition fits :: "nat \<Rightarrow> catalog_table \<Rightarrow> bool" where
  "fits max_len t =
     (length (join_with '','' (remdups (map column_detail (cat_columns t)))) \<le> max_len
      \<and> length (join_with '','' (remdups (map fk_detail (cat_foreign_keys t)))) \<le> max_len
      \<and> length (join_with '','' (cat_primary t)) \<le> max_len)"

text \<open>A table with no primary key is not named like a member of \<^verbatim>\<open>Object.prototype\<close>.\<close>

definition plain_name :: "catalog_table \<Rightarrow> bool" where
  "plain_name t = (cat_primary t \<noteq> [] \<or> TABLE_NAME t \<notin> set object_prototype_members)"

definition well_formed :: "nat \<Rightarrow> catalog_table list \<Rightarrow> bool" where
  "well_formed max_len cat =
     (list_all (\<lambda>t. well_formed_table t \<and> fits max_len t \<and> plain_name t) cat
      \<and> distinct (map TABLE_NAME cat))"

section \<open>The client: the UPDATE path of \<^verbatim>\<open>runQuery\<close>\<close>

text \<open>
  The schema as the client holds it: the types \<^verbatim>\<open>TableSchema\<close> and its
  \<^verbatim>\<open>relationships\<close> of \<^verbatim>\<open>CustomQuery.tsx\<close>.
\<close>

record relationship =
  rel_table :: string
  rel_fromColumn :: string
  rel_toColumn :: string

record table_schema =
  name :: string
  columns :: "column_info list"
  primaryKeys :: "string list"
  relationships :: "relationship list"
  dependsOn :: "string list"
  isIndependentTable :: bool
  supportsInsert :: bool

text \<open>
  The state of the \<^verbatim>\<open>CustomQuery\<close> component that \<^verbatim>\<open>runQuery\<close> reads when the
  operation is UPDATE.
\<close>

record client =
  selectedTable :: string
  schema :: "table_schema list"
  updateValues :: "jsval obj"
  originalValues :: "jsval obj"
  updateReferences :: bool
  client_conditions :: "condition list"

definition getCurrentTableSchema :: "client \<Rightarrow> table_schema option" where
  "getCurrentTableSchema c =
     (if selectedTable c = [] then None
      else find (\<lambda>s. name s = selectedTable c) (schema c))"

text \<open>The \<^verbatim>\<open>primaryKeys\<close> of \<^verbatim>\<open>getKeyFields(selectedTable)\<close>.\<close>

definition getKeyFields :: "client \<Rightarrow> string list" where
  "getKeyFields c =
     (if selectedTable c = [] then []
      else case find (\<lambda>s. name s = selectedTable c) (schema c) of
        None \<Rightarrow> []
      | Some ts \<Rightarrow> primaryKeys ts)"

definition validConditions :: "condition list \<Rightarrow> condition list" where
  "validConditions cs =
     filter (\<lambda>c. cfield c \<noteq> [] \<and> coperator c \<noteq> [] \<and> cvalue c \<noteq> JUndefined \<and> cvalue c \<noteq> JStr []) cs"

text \<open>The UPDATE case of \<^verbatim>\<open>buildQuery\<close>.\<close>

definition buildQuery :: "client \<Rightarrow> request" where
  "buildQuery c =
     \<lparr>operation = ''UPDATE'', table = selectedTable c, req_fields = [], joins = [],
      conditions = validConditions (client_conditions c),
      updates = fromEntries
        (filter (\<lambda>e. fst e \<notin> set (getKeyFields c) \<and> js_get (originalValues c) (fst e) \<noteq> snd e)
           (updateValues c)),
      data = None\<rparr>"

definition updatedPKs :: "client \<Rightarrow> table_schema \<Rightarrow> (string \<times> jsval) list" where
  "updatedPKs c ts =
     filter (\<lambda>e. fst e \<in> set (primaryKeys ts) \<and> js_get (originalValues c) (fst e) \<noteq> snd e)
       (updateValues c)"

record reference =
  tableName :: string
  ref_fromColumn :: string
  ref_toColumn :: string

text \<open>The nested loops that collect \<^verbatim>\<open>referencingTables\<close>.\<close>

definition referencingTables :: "table_schema list \<Rightarrow> string \<Rightarrow> string list \<Rightarrow> reference list" where
  "referencingTables sch selected pkFields =
     concat (map (\<lambda>t.
       if name t = selected then []
       else map (\<lambda>rel. \<lparr>tableName = name t, ref_fromColumn = rel_fromColumn rel,
                        ref_toColumn = rel_toColumn rel\<rparr>)
              (filter (\<lambda>rel. rel_table rel = selected \<and> rel_toColumn rel \<in> set pkFields)
                 (relationships t))) sch)"

text \<open>A value between single quotes, as the templates write \<^verbatim>\<open>'${value}'\<close>.\<close>

definition quoted :: "jsval \<Rightarrow> string" where
  "quoted v = [CHR 0x27] @ js_string v @ [CHR 0x27]"

definition sql_begin :: string where
  "sql_begin = ''\<newline>                SET foreign_key_checks = 0;\<newline>                START TRANSACTION;\<newline>              ''"

definition reference_update :: "reference \<Rightarrow> jsval \<Rightarrow> jsval \<Rightarrow> string" where
  "reference_update r newValue oldValue =
     ''\<newline>                      UPDATE `'' @ tableName r @ ''` \<newline>                      SET `'' @ ref_fromColumn r @ ''` = '' @ quoted newValue @ '' \<newline>                      WHERE `'' @ ref_fromColumn r @ ''` = '' @ quoted oldValue @ '';\<newline>                    ''"

text \<open>
  The inner loop over \<^verbatim>\<open>pkFields\<close>: \<^verbatim>\<open>pkFields[i]\<close>, \<^verbatim>\<open>newValues[i]\<close> and
  \<^verbatim>\<open>oldValues[i]\<close> are the field, the new value and the original value of the
  \<open>i\<close>-th entry of \<^verbatim>\<open>updatedPKs\<close>.
\<close>

definition reference_updates :: "jsval obj \<Rightarrow> (string \<times> jsval) list \<Rightarrow> reference \<Rightarrow> string list" where
  "reference_updates orig ups r =
     concat (map (\<lambda>e. if ref_toColumn r = fst e
                       then [reference_update r (snd e) (js_get orig (fst e))] else []) ups)"

definition whereClause :: "condition list \<Rightarrow> string" where
  "whereClause cs =
     join_with '' AND '' (map (\<lambda>c. ''`'' @ cfield c @ ''` '' @ coperator c @ '' '' @ quoted (cvalue c)) cs)"

definition setClause :: "(string \<times> jsval) list \<Rightarrow> string" where
  "setClause ups = join_with '', '' (map (\<lambda>e. ''`'' @ fst e @ ''` = '' @ quoted (snd e)) ups)"

definition main_update :: "string \<Rightarrow> (string \<times> jsval) list \<Rightarrow> condition list \<Rightarrow> string" where
  "main_update selected ups cs =
     ''\<newline>                UPDATE `'' @ selected @ ''` \<newline>                SET '' @ setClause ups @ ''\<newline>                WHERE '' @ whereClause cs @ '';\<newline>                \<newline>                COMMIT;\<newline>                SET foreign_key_checks = 1;\<newline>              ''"

text \<open>The successive values appended to \<^verbatim>\<open>sql\<close>, and the script they make.\<close>

definition cascade_pieces :: "client \<Rightarrow> (string \<times> jsval) list \<Rightarrow> reference list \<Rightarrow> string list" where
  "cascade_pieces c ups refs =
     sql_begin # concat (map (reference_updates (originalValues c) ups) refs)
       @ [main_update (selectedTable c) ups (client_conditions c)]"

definition cascade_sql :: "client \<Rightarrow> (string \<times> jsval) list \<Rightarrow> reference list \<Rightarrow> string" where
  "cascade_sql c ups refs = concat (cascade_pieces c ups refs)"

datatype client_error = TableSchemaNotFound | ReferencesNotEnabled

datatype client_action = PostQuery request | PostSql string | Rejected client_error

text \<open>
  What \<^verbatim>\<open>runQuery\<close> sends first when the operation is UPDATE: the request of
  \<^verbatim>\<open>buildQuery\<close> to \<^verbatim>\<open>/query\<close>, the cascade script to \<^verbatim>\<open>/sql\<close>, or nothing.
\<close>

definition runQuery :: "client \<Rightarrow> client_action" where
  "runQuery c =
     (case getCurrentTableSchema c of
        None \<Rightarrow> Rejected TableSchemaNotFound
      | Some ts \<Rightarrow>
          (let ups = updatedPKs c ts in
           if ups = [] then PostQuery (buildQuery c)
           else if updateReferences c then
             (let refs = referencingTables (schema c) (selectedTable c) (map fst ups) in
              if refs \<noteq> [] then PostSql (cascade_sql c ups refs)
              else PostQuery (buildQuery c))
           else Rejected ReferencesNotEnabled))"

section \<open>Example data\<close>

text \<open>
  The join methods of a knex builder, an engine over the company schema (one row per
  write, 40 rows in a table and 2 under any condition) and requests against it.
\<close>

definition knex_join_methods :: "string list" where
  "knex_join_methods =
     [''innerJoin'', ''leftJoin'', ''leftOuterJoin'', ''rightJoin'', ''rightOuterJoin'',
      ''outerJoin'', ''fullOuterJoin'', ''crossJoin'']"

definition company_pk :: "string \<Rightarrow> string list" where
  "company_pk t =
     (if t = ''Employee'' then [''EmpID'']
      else if t = ''Department'' then [''DeptID'']
      else if t = ''Sale_Line'' then [''SaleID'', ''ProductID'']
      else [])"

definition company_env :: "nat env" where
  "company_env =
     \<lparr>has_method = (\<lambda>m. m \<in> set knex_join_methods),
      pk_rows = (\<lambda>t. Inr (company_pk t)),
      run = (\<lambda>q. Inr 1),
      run_count = (\<lambda>q. Inr (if q_wheres q = [] then 40 else 2)),
      run_raw = (\<lambda>s. Inr 0)\<rparr>"

definition employee_cond :: condition where
  "employee_cond = \<lparr>cfield = ''EmpID'', coperator = ''='', cvalue = JStr ''7''\<rparr>"

definition update_request :: "jsval obj \<Rightarrow> condition list \<Rightarrow> request" where
  "update_request ups cs =
     \<lparr>operation = ''UPDATE'', table = ''Employee'', req_fields = [], joins = [],
      conditions = cs, updates = ups, data = None\<rparr>"

definition rename_request :: request where
  "rename_request = update_request [(''EmpID'', JStr ''70''), (''Title'', JStr ''Lead'')] [employee_cond]"

definition rekey_request :: request where
  "rekey_request = update_request [(''EmpID'', JStr ''70'')] [employee_cond]"

definition select_like :: request where
  "select_like =
     \<lparr>operation = ''SELECT'', table = ''Person'', req_fields = [], joins = [],
      conditions = [\<lparr>cfield = ''LName'', coperator = ''LIKE'', cvalue = JStr ''Co''\<rparr>],
      updates = [], data = None\<rparr>"

definition delete_like :: request where
  "delete_like = select_like\<lparr>operation := ''DELETE''\<rparr>"

definition delete_department :: request where
  "delete_department =
     \<lparr>operation = ''DELETE'', table = ''Department'', req_fields = [], joins = [],
      conditions = [\<lparr>cfield = ''DeptID'', coperator = ''='', cvalue = JNum 3\<rparr>],
      updates = [], data = None\<rparr>"

definition row_is_referenced :: db_error where
  "row_is_referenced =
     \<lparr>err_code = ''ER_ROW_IS_REFERENCED_2'',
      err_message = ''Cannot delete or update a parent row: a foreign key constraint fails (`company`.`Job_Position`, CONSTRAINT `Job_Position_ibfk_1` FOREIGN KEY (`DeptID`) REFERENCES `Department` (`DeptID`))''\<rparr>"

definition referenced_env :: "nat env" where
  "referenced_env = company_env\<lparr>run := (\<lambda>q. Inl row_is_referenced)\<rparr>"

definition insert_request :: "jsval obj \<Rightarrow> request" where
  "insert_request d =
     \<lparr>operation = ''INSERT'', table = ''permissions'', req_fields = [], joins = [],
      conditions = [], updates = [], data = Some d\<rparr>"

definition insert_run :: "jsval obj \<Rightarrow> db_call" where
  "insert_run d = Run \<lparr>q_table = ''permissions'', q_joins = [], q_action = Insert d, q_wheres = []\<rparr>"

text \<open>
  Scenario A: the Employee table with its self-reference, and the Sale table that
  references it; the client changes \<^verbatim>\<open>EmpID\<close> from 7 to a new value.
\<close>

definition employee_table :: table_schema where
  "employee_table =
     \<lparr>name = ''Employee'',
      columns = [],
      primaryKeys = [''EmpID''],
      relationships =
        [\<lparr>rel_table = ''Person'', rel_fromColumn = ''EmpID'', rel_toColumn = ''PersonID''\<rparr>,
         \<lparr>rel_table = ''Employee'', rel_fromColumn = ''SupervisorID'', rel_toColumn = ''EmpID''\<rparr>],
      dependsOn = [''Person'', ''Employee''], isIndependentTable = False, supportsInsert = True\<rparr>"

definition sale_table :: table_schema where
  "sale_table =
     \<lparr>name = ''Sale'',
      columns = [],
      primaryKeys = [''SaleID''],
      relationships =
        [\<lparr>rel_table = ''Employee'', rel_fromColumn = ''EmpID'', rel_toColumn = ''EmpID''\<rparr>],
      dependsOn = [''Employee''], isIndependentTable = False, supportsInsert = True\<rparr>"

definition employee_client :: "table_schema list \<Rightarrow> jsval \<Rightarrow> client" where
  "employee_client sch newId =
     \<lparr>selectedTable = ''Employee'', schema = sch,
      updateValues = [(''EmpID'', newId)],
      originalValues = [(''EmpID'', JStr ''7''), (''SupervisorID'', JStr ''3'')],
      updateReferences = True,
      client_conditions = [employee_cond]\<rparr>"

definition hostile_id :: string where
  "hostile_id = ''70'' @ [CHR 0x27] @ ''; DROP TABLE Sale; -- ''"

definition sale_reference :: reference where
  "sale_reference = \<lparr>tableName = ''Sale'', ref_fromColumn = ''EmpID'', ref_toColumn = ''EmpID''\<rparr>"

text \<open>A catalog with the Employee table and a table that has no primary key.\<close>

definition int_column :: "string \<Rightarrow> catalog_column" where
  "int_column n =
     \<lparr>COLUMN_NAME = n, DATA_TYPE = ''int'', CHARACTER_MAXIMUM_LENGTH = None, IS_NULLABLE = ''NO'',
      COLUMN_DEFAULT = None, EXTRA = None\<rparr>"

definition employee_catalog :: catalog_table where
  "employee_catalog =
     \<lparr>TABLE_NAME = ''Employee'',
      cat_columns = [int_column ''EmpID'',
        \<lparr>COLUMN_NAME = ''Title'', DATA_TYPE = ''varchar'', CHARACTER_MAXIMUM_LENGTH = Some ''50'',
         IS_NULLABLE = ''YES'', COLUMN_DEFAULT = None, EXTRA = None\<rparr>,
        int_column ''SupervisorID''],
      cat_foreign_keys =
        [\<lparr>REFERENCED_TABLE_NAME = ''Person'', FK_COLUMN_NAME = ''EmpID'', REFERENCED_COLUMN_NAME = ''PersonID''\<rparr>,
         \<lparr>REFERENCED_TABLE_NAME = ''Employee'', FK_COLUMN_NAME = ''SupervisorID'', REFERENCED_COLUMN_NAME = ''EmpID''\<rparr>],
      cat_primary = [''EmpID'']\<rparr>"

definition audit_log_catalog :: catalog_table where
  "audit_log_catalog =
     \<lparr>TABLE_NAME = ''audit_log'', cat_columns = [int_column ''entry''],
      cat_foreign_keys = [], cat_primary = []\<rparr>"

text \<open>
  A table of 30 integer columns \<^verbatim>\<open>Quarterly_Revenue_Adjustment_0\<close> to
  \<^verbatim>\<open>Quarterly_Revenue_Adjustment_29\<close> whose key is the last one (its column details
  take 1249 bytes), and a table without a primary key that is called \<^verbatim>\<open>constructor\<close>.
\<close>

definition wide_catalog :: catalog_table where
  "wide_catalog =
     \<lparr>TABLE_NAME = ''Wide'',
      cat_columns = map (\<lambda>i. int_column (''Quarterly_Revenue_Adjustment_'' @ show_nat i)) [0..<30],
      cat_foreign_keys = [], cat_primary = [''Quarterly_Revenue_Adjustment_29'']\<rparr>"

definition constructor_catalog :: catalog_table where
  "constructor_catalog =
     \<lparr>TABLE_NAME = ''constructor'', cat_columns = [int_column ''entry''],
      cat_foreign_keys = [], cat_primary = []\<rparr>"

section \<open>Properties of objects and of the builder\<close>

lemma obj_set_ne: "obj_set k v ob \<noteq> []"
  by (cases ob) auto

lemma keys_obj_set: "set (keys (obj_set k v ob)) = insert k (set (keys ob))"
  by (induction ob) (auto simp: keys_def)

lemma foldl_obj_set_keys:
  "set (keys (foldl (\<lambda>acc e. obj_set (fst e) (snd e) acc) acc es)) = set (keys acc) \<union> fst ` set es"
  by (induction es arbitrary: acc) (auto simp: keys_obj_set)

lemma keys_fromEntries: "set (keys (fromEntries es)) = fst ` set es"
  using foldl_obj_set_keys [of "[]" es] by (simp add: fromEntries_def keys_def)

lemma keys_safeUpdates:
  "set (keys (safeUpdates pkCols ups)) = set (keys ups) - set pkCols"
  unfolding safeUpdates_def keys_fromEntries by (auto simp: keys_def)

lemma keys_empty_iff: "keys ob = [] \<longleftrightarrow> set (keys ob) = {}"
  by simp

lemma safeUpdates_empty_iff:
  "keys (safeUpdates pkCols ups) = [] \<longleftrightarrow> set (keys ups) \<subseteq> set pkCols"
  by (simp only: keys_empty_iff keys_safeUpdates) auto

lemma plain_wheres_eq:
  "plain_wheres cs q = q\<lparr>q_wheres := q_wheres q @ map (\<lambda>c. (cfield c, coperator c, cvalue c)) cs\<rparr>"
  by (induction cs arbitrary: q) (auto simp: knex_where_def)

lemma select_wheres_eq:
  "select_wheres cs q = q\<lparr>q_wheres := q_wheres q @
     map (\<lambda>c. (cfield c, coperator c,
        if coperator c = ''LIKE'' then JStr (''%'' @ js_string (cvalue c) @ ''%'') else cvalue c)) cs\<rparr>"
  by (induction cs arbitrary: q) (auto simp: knex_where_def)

lemma apply_joins_keeps:
  "apply_joins has q js = Inr q' \<Longrightarrow>
     q_table q' = q_table q \<and> q_action q' = q_action q \<and> q_wheres q' = q_wheres q"
  by (induction js arbitrary: q) (auto simp: Let_def split: if_splits)

lemma execute_calls: "fst (execute env calls q) = calls @ [Run q]"
  by (simp add: execute_def split: sum.splits)

section \<open>\<^verbatim>\<open>POST /query\<close>: what reaches the engine\<close>

text \<open>What an UPDATE request that gets as far as a statement has gone through.\<close>

lemma update_run_cases:
  assumes "operation req = ''UPDATE''" and "Run q \<in> set (fst (post_query env req))"
  shows "\<exists>pkCols q0. pk_rows env (table req) = Inr pkCols
           \<and> apply_joins (has_method env) (db (table req)) (joins req) = Inr q0
           \<and> keys (safeUpdates pkCols (updates req)) \<noteq> []
           \<and> conditions req \<noteq> []
           \<and> q = plain_wheres (conditions req) (q0\<lparr>q_action := Update (safeUpdates pkCols (updates req))\<rparr>)"
  using assms
  by (auto simp: post_query_def operation_switch_def execute_calls
      split: if_splits sum.splits prod.splits outcome.splits)

text \<open>
  What the filter of the UPDATE case achieves, on names as strings: no key of the update
  set that reaches \<^verbatim>\<open>query.update\<close> is equal, character for character, to a name
  the catalog lookup returned, and that set is non-empty. When every requested name is
  such a name, no statement is issued and the response is an error; once the request has
  a table and valid joins it is the 400 refusal. This says nothing about a key that names
  a primary-key column in another spelling.
\<close>

lemma update_set_disjoint_by_name:
  assumes "operation req = ''UPDATE''"
    and "pk_rows env (table req) = Inr pkCols"
  shows "(\<forall>q. Run q \<in> set (fst (post_query env req)) \<longrightarrow>
            (\<exists>ups. q_action q = Update ups \<and> keys ups \<noteq> [] \<and> set (keys ups) \<inter> set pkCols = {}))
       \<and> (set (keys (updates req)) \<subseteq> set pkCols \<longrightarrow>
            (\<forall>q. Run q \<notin> set (fst (post_query env req)))
          \<and> (\<exists>n msg. snd (post_query env req) = Response n (ErrorBody msg) \<and> 400 \<le> n)
          \<and> (table req \<noteq> [] \<and> (\<exists>q0. apply_joins (has_method env) (db (table req)) (joins req) = Inr q0) \<longrightarrow>
               snd (post_query env req) = Response 400 (ErrorBody (refusal pkCols))))"
proof -
  have plan: "\<exists>ups. q_action q = Update ups \<and> keys ups \<noteq> [] \<and> set (keys ups) \<inter> set pkCols = {}"
    if "Run q \<in> set (fst (post_query env req))" for q
  proof -
    from update_run_cases [OF assms(1) that] assms(2)
    obtain q0 where ne: "keys (safeUpdates pkCols (updates req)) \<noteq> []"
      and q: "q = plain_wheres (conditions req) (q0\<lparr>q_action := Update (safeUpdates pkCols (updates req))\<rparr>)"
      by auto
    have "q_action q = Update (safeUpdates pkCols (updates req))"
      by (simp add: q plain_wheres_eq)
    moreover have "set (keys (safeUpdates pkCols (updates req))) \<inter> set pkCols = {}"
      by (auto simp: keys_safeUpdates)
    ultimately show ?thesis using ne by blast
  qed
  have refused:
    "(\<forall>q. Run q \<notin> set (fst (post_query env req)))
      \<and> (\<exists>n msg. snd (post_query env req) = Response n (ErrorBody msg) \<and> 400 \<le> n)
      \<and> (table req \<noteq> [] \<and> (\<exists>q0. apply_joins (has_method env) (db (table req)) (joins req) = Inr q0) \<longrightarrow>
               snd (post_query env req) = Response 400 (ErrorBody (refusal pkCols)))"
    if sub: "set (keys (updates req)) \<subseteq> set pkCols"
  proof -
    from sub have e: "keys (safeUpdates pkCols (updates req)) = []"
      by (simp only: safeUpdates_empty_iff)
    have "Run q \<notin> set (fst (post_query env req))" for q
      using update_run_cases [OF assms(1), of q env] assms(2) e by auto
    moreover have "\<exists>n msg. snd (post_query env req) = Response n (ErrorBody msg) \<and> 400 \<le> n"
      using assms e by (auto simp: post_query_def operation_switch_def split: sum.splits)
    moreover have "snd (post_query env req) = Response 400 (ErrorBody (refusal pkCols))"
      if "table req \<noteq> []" "apply_joins (has_method env) (db (table req)) (joins req) = Inr q0" for q0
      using assms e that by (simp add: post_query_def operation_switch_def)
    ultimately show ?thesis by blast
  qed
  from plan refused show ?thesis by blast
qed

lemma company_joins_ok [simp]:
  "apply_joins (has_method company_env) (db t) [] = Inr (db t)"
  by simp

lemma post_query_name_update:
  "post_query company_env rename_request =
     ([PkLookup ''Employee'',
       Run \<lparr>q_table = ''Employee'', q_joins = [], q_action = Update [(''Title'', JStr ''Lead'')],
            q_wheres = [(''EmpID'', ''='', JStr ''7'')]\<rparr>],
      Response 200 (ResultBody 1))"
  by (simp add: post_query_def operation_switch_def execute_def rename_request_def update_request_def
      company_env_def company_pk_def safeUpdates_def fromEntries_def keys_def db_def knex_where_def
      employee_cond_def)

lemma post_query_key_update:
  "post_query company_env rekey_request =
     ([PkLookup ''Employee''],
      Response 400 (ErrorBody (refusal [''EmpID''])))"
  by (simp add: post_query_def operation_switch_def execute_def rekey_request_def update_request_def
      company_env_def company_pk_def safeUpdates_def fromEntries_def keys_def db_def knex_where_def
      employee_cond_def)

lemma update_set_disjoint_by_name_example:
  "operation rename_request = ''UPDATE'' \<and> pk_rows company_env (table rename_request) = Inr [''EmpID'']
   \<and> Run \<lparr>q_table = ''Employee'', q_joins = [], q_action = Update [(''Title'', JStr ''Lead'')],
            q_wheres = [(''EmpID'', ''='', JStr ''7'')]\<rparr> \<in> set (fst (post_query company_env rename_request))
   \<and> set (keys [(''Title'', JStr ''Lead'')]) \<inter> set [''EmpID''] = {}
   \<and> operation rekey_request = ''UPDATE'' \<and> pk_rows company_env (table rekey_request) = Inr [''EmpID'']
   \<and> set (keys (updates rekey_request)) \<subseteq> set [''EmpID'']
   \<and> (\<forall>q. Run q \<notin> set (fst (post_query company_env rekey_request)))
   \<and> snd (post_query company_env rekey_request) = Response 400 (ErrorBody (refusal [''EmpID'']))"
proof -
  have a: "operation rename_request = ''UPDATE''" "operation rekey_request = ''UPDATE''"
    by (simp_all add: rename_request_def rekey_request_def update_request_def)
  have b: "pk_rows company_env (table rename_request) = Inr [''EmpID'']"
    "pk_rows company_env (table rekey_request) = Inr [''EmpID'']"
    by (simp_all add: rename_request_def rekey_request_def update_request_def company_env_def company_pk_def)
  have c: "set (keys (updates rekey_request)) \<subseteq> set [''EmpID'']"
    by (simp add: rekey_request_def update_request_def keys_def)
  from update_set_disjoint_by_name [OF a(2) b(2)] c
  have "\<forall>q. Run q \<notin> set (fst (post_query company_env rekey_request))" by blast
  with a b c show ?thesis
    by (simp add: post_query_name_update post_query_key_update keys_def)
qed

text \<open>
  Claim C2, at its failing input. The catalog lookup for \<^verbatim>\<open>Employee\<close> returns the
  primary key \<^verbatim>\<open>EmpID\<close>. A request that updates \<^verbatim>\<open>empid\<close>, the same column in
  lower case (MySQL column names are case-insensitive), or the qualified
  \<^verbatim>\<open>Employee.EmpID\<close>, passes \<^verbatim>\<open>!pkCols.includes(col)\<close>: the handler does not
  refuse it and sends the engine an UPDATE whose set clause names the primary-key column.
\<close>

theorem primary_key_set_under_other_spelling:
  "pk_rows company_env ''Employee'' = Inr [''EmpID'']
   \<and> toLowerCase ''empid'' = toLowerCase ''EmpID''
   \<and> post_query company_env (update_request [(''empid'', JStr ''70'')] [employee_cond]) =
       ([PkLookup ''Employee'',
         Run \<lparr>q_table = ''Employee'', q_joins = [], q_action = Update [(''empid'', JStr ''70'')],
              q_wheres = [(''EmpID'', ''='', JStr ''7'')]\<rparr>],
        Response 200 (ResultBody 1))
   \<and> post_query company_env (update_request [(''Employee.EmpID'', JStr ''70'')] [employee_cond]) =
       ([PkLookup ''Employee'',
         Run \<lparr>q_table = ''Employee'', q_joins = [],
              q_action = Update [(''Employee.EmpID'', JStr ''70'')],
              q_wheres = [(''EmpID'', ''='', JStr ''7'')]\<rparr>],
        Response 200 (ResultBody 1))"
  by (simp add: post_query_def operation_switch_def execute_def update_request_def
      company_env_def company_pk_def safeUpdates_def fromEntries_def keys_def db_def knex_where_def
      employee_cond_def toLowerCase_def lower_char_def)

lemma select_run_cases:
  assumes "operation req = ''SELECT''" and "Run q \<in> set (fst (post_query env req))"
  shows "\<exists>q0. apply_joins (has_method env) (db (table req)) (joins req) = Inr q0
           \<and> q = select_wheres (conditions req)
                 (q0\<lparr>q_action := Select (if req_fields req = [] then [''*''] else req_fields req)\<rparr>)"
  using assms
  by (auto simp: post_query_def operation_switch_def execute_calls
      split: if_splits sum.splits prod.splits outcome.splits)

lemma delete_run_cases:
  assumes "operation req = ''DELETE''" and "Run q \<in> set (fst (post_query env req))"
  shows "\<exists>q0. apply_joins (has_method env) (db (table req)) (joins req) = Inr q0
           \<and> conditions req \<noteq> []
           \<and> q = (plain_wheres (conditions req) q0)\<lparr>q_action := Delete\<rparr>"
  using assms
  by (auto simp: post_query_def operation_switch_def execute_calls
      split: if_splits sum.splits prod.splits outcome.splits)

lemma db_wheres: "apply_joins has (db t) js = Inr q0 \<Longrightarrow> q_wheres q0 = []"
  by (drule apply_joins_keeps) (simp add: db_def)

text \<open>
  Claim C9. Inside the UPDATE case of \<^verbatim>\<open>POST /query\<close> the primary-key refusal comes
  first. For a request that reaches the case (it names a table, its joins are accepted and
  the catalog lookup answers): when no requested column is outside the primary key, be the
  update set empty from the start or not, and whatever the conditions, the handler
  answers the 400 refusal after the catalog lookup alone; and the throws
  \<^verbatim>\<open>No column values supplied for UPDATE\<close> and
  \<^verbatim>\<open>Refusing to UPDATE without WHERE clause\<close> leave the case only when a column
  outside the primary key remains.
\<close>

theorem primary_key_refusal_first:
  assumes "operation req = ''UPDATE''" and "table req \<noteq> []"
    and "apply_joins (has_method env) (db (table req)) (joins req) = Inr q0"
    and "pk_rows env (table req) = Inr pkCols"
  shows "(set (keys (updates req)) \<subseteq> set pkCols \<longrightarrow>
            post_query env req = ([PkLookup (table req)], Response 400 (ErrorBody (refusal pkCols))))
       \<and> (snd (operation_switch env req q0) = Thrown ''No column values supplied for UPDATE''
            \<or> snd (operation_switch env req q0) = Thrown ''Refusing to UPDATE without WHERE clause''
          \<longrightarrow> \<not> set (keys (updates req)) \<subseteq> set pkCols)"
proof -
  have "post_query env req = ([PkLookup (table req)], Response 400 (ErrorBody (refusal pkCols)))"
    if "set (keys (updates req)) \<subseteq> set pkCols"
  proof -
    from that have "keys (safeUpdates pkCols (updates req)) = []"
      by (simp only: safeUpdates_empty_iff)
    with assms show ?thesis by (simp add: post_query_def operation_switch_def)
  qed
  moreover have "\<not> set (keys (updates req)) \<subseteq> set pkCols"
    if "snd (operation_switch env req q0) = Thrown ''No column values supplied for UPDATE''
        \<or> snd (operation_switch env req q0) = Thrown ''Refusing to UPDATE without WHERE clause''"
  proof
    assume "set (keys (updates req)) \<subseteq> set pkCols"
    then have "keys (safeUpdates pkCols (updates req)) = []"
      by (simp only: safeUpdates_empty_iff)
    with assms have "snd (operation_switch env req q0) = Responded (Response 400 (ErrorBody (refusal pkCols)))"
      by (simp add: operation_switch_def)
    with that show False by simp
  qed
  ultimately show ?thesis by blast
qed

lemma employee_joins: "apply_joins (has_method company_env) (db (table (update_request ups cs))) (joins (update_request ups cs)) = Inr (db ''Employee'')"
  by (simp add: update_request_def)

theorem primary_key_refusal_first_witness:
  "operation (update_request [] []) = ''UPDATE'' \<and> table (update_request [] []) \<noteq> []
   \<and> set (keys (updates (update_request [] []))) \<subseteq> set [''EmpID'']
   \<and> post_query company_env (update_request [] []) =
       ([PkLookup ''Employee''], Response 400 (ErrorBody (refusal [''EmpID''])))
   \<and> snd (operation_switch company_env (update_request [(''Title'', JStr ''Lead'')] []) (db ''Employee''))
       = Thrown ''Refusing to UPDATE without WHERE clause''
   \<and> \<not> set (keys (updates (update_request [(''Title'', JStr ''Lead'')] []))) \<subseteq> set [''EmpID'']"
proof -
  have pk: "pk_rows company_env (table (update_request ups cs)) = Inr [''EmpID'']" for ups cs
    by (simp add: update_request_def company_env_def company_pk_def)
  have op: "operation (update_request ups cs) = ''UPDATE''" "table (update_request ups cs) \<noteq> []" for ups cs
    by (simp_all add: update_request_def)
  have thrown: "snd (operation_switch company_env (update_request [(''Title'', JStr ''Lead'')] []) (db ''Employee''))
       = Thrown ''Refusing to UPDATE without WHERE clause''"
    by (simp add: operation_switch_def update_request_def company_env_def company_pk_def
        safeUpdates_def fromEntries_def keys_def)
  have sub: "set (keys (updates (update_request [] []))) \<subseteq> set [''EmpID'']"
    by (simp add: update_request_def keys_def)
  from primary_key_refusal_first [OF op employee_joins pk, of "[]" "[]"] sub
  have r: "post_query company_env (update_request [] []) =
       ([PkLookup (table (update_request [] []))], Response 400 (ErrorBody (refusal [''EmpID''])))"
    by blast
  from primary_key_refusal_first [OF op employee_joins pk, of "[(''Title'', JStr ''Lead'')]" "[]"] thrown
  have n: "\<not> set (keys (updates (update_request [(''Title'', JStr ''Lead'')] []))) \<subseteq> set [''EmpID'']"
    by blast
  from r n thrown sub op show ?thesis by (simp add: update_request_def)
qed

text \<open>
  Claim C10. The wildcard wrapping of a \<^verbatim>\<open>LIKE\<close> value belongs to SELECT alone. In
  the statement a SELECT request sends to the engine, a condition whose operator is
  \<^verbatim>\<open>LIKE\<close> binds \<^verbatim>\<open>%value%\<close> and every other condition binds its value as
  given; in the statement of an UPDATE or a DELETE every condition, \<^verbatim>\<open>LIKE\<close>
  included, binds the caller's value as given.
\<close>

theorem like_wrapping_only_on_select:
  assumes "Run q \<in> set (fst (post_query env req))"
  shows "(operation req = ''SELECT'' \<longrightarrow>
            q_wheres q = map (\<lambda>c. (cfield c, coperator c,
               if coperator c = ''LIKE'' then JStr (''%'' @ js_string (cvalue c) @ ''%'') else cvalue c))
              (conditions req))
       \<and> (operation req = ''UPDATE'' \<or> operation req = ''DELETE'' \<longrightarrow>
            q_wheres q = map (\<lambda>c. (cfield c, coperator c, cvalue c)) (conditions req))"
proof (intro conjI impI)
  assume "operation req = ''SELECT''"
  from select_run_cases [OF this assms] show "q_wheres q = map (\<lambda>c. (cfield c, coperator c,
               if coperator c = ''LIKE'' then JStr (''%'' @ js_string (cvalue c) @ ''%'') else cvalue c))
              (conditions req)"
    by (auto simp: select_wheres_eq dest: db_wheres)
next
  assume "operation req = ''UPDATE'' \<or> operation req = ''DELETE''"
  then show "q_wheres q = map (\<lambda>c. (cfield c, coperator c, cvalue c)) (conditions req)"
  proof
    assume "operation req = ''UPDATE''"
    from update_run_cases [OF this assms] show ?thesis
      by (auto simp: plain_wheres_eq dest: db_wheres)
  next
    assume "operation req = ''DELETE''"
    from delete_run_cases [OF this assms] show ?thesis
      by (auto simp: plain_wheres_eq dest: db_wheres)
  qed
qed

lemma post_query_select_like:
  "post_query company_env select_like =
     ([Run \<lparr>q_table = ''Person'', q_joins = [], q_action = Select [''*''],
            q_wheres = [(''LName'', ''LIKE'', JStr ''%Co%'')]\<rparr>],
      Response 200 (ResultBody 1))"
  by (simp add: post_query_def operation_switch_def execute_def select_like_def
      company_env_def db_def knex_where_def)

lemma post_query_delete_like:
  "post_query company_env delete_like =
     ([Run \<lparr>q_table = ''Person'', q_joins = [], q_action = Delete,
            q_wheres = [(''LName'', ''LIKE'', JStr ''Co'')]\<rparr>],
      Response 200 (ResultBody 1))"
  by (simp add: post_query_def operation_switch_def execute_def select_like_def delete_like_def
      company_env_def db_def knex_where_def)

theorem like_wrapping_only_on_select_witness:
  "Run \<lparr>q_table = ''Person'', q_joins = [], q_action = Select [''*''],
         q_wheres = [(''LName'', ''LIKE'', JStr ''%Co%'')]\<rparr>
     \<in> set (fst (post_query company_env select_like))
   \<and> Run \<lparr>q_table = ''Person'', q_joins = [], q_action = Delete,
         q_wheres = [(''LName'', ''LIKE'', JStr ''Co'')]\<rparr>
     \<in> set (fst (post_query company_env delete_like))
   \<and> operation select_like = ''SELECT'' \<and> operation delete_like = ''DELETE''
   \<and> map (\<lambda>c. (cfield c, coperator c,
               if coperator c = ''LIKE'' then JStr (''%'' @ js_string (cvalue c) @ ''%'') else cvalue c))
              (conditions select_like) = [(''LName'', ''LIKE'', JStr ''%Co%'')]
   \<and> map (\<lambda>c. (cfield c, coperator c, cvalue c)) (conditions delete_like)
       = [(''LName'', ''LIKE'', JStr ''Co'')]"
proof -
  have s: "Run \<lparr>q_table = ''Person'', q_joins = [], q_action = Select [''*''],
         q_wheres = [(''LName'', ''LIKE'', JStr ''%Co%'')]\<rparr>
     \<in> set (fst (post_query company_env select_like))"
    by (simp add: post_query_select_like)
  have d: "Run \<lparr>q_table = ''Person'', q_joins = [], q_action = Delete,
         q_wheres = [(''LName'', ''LIKE'', JStr ''Co'')]\<rparr>
     \<in> set (fst (post_query company_env delete_like))"
    by (simp add: post_query_delete_like)
  have ops: "operation select_like = ''SELECT''" "operation delete_like = ''DELETE''"
    by (simp_all add: select_like_def delete_like_def)
  from like_wrapping_only_on_select [OF s] like_wrapping_only_on_select [OF d] s d ops
  show ?thesis by simp
qed

text \<open>
  Claim C4, as stated, fails: an UPDATE that names only the primary key and has no
  conditions is answered with the 400 primary-key refusal, not with the missing-WHERE
  error, and the catalog lookup has gone to the engine by then.
\<close>

theorem missing_conditions_counterexample:
  "operation (update_request [(''EmpID'', JStr ''70'')] []) = ''UPDATE''
   \<and> conditions (update_request [(''EmpID'', JStr ''70'')] []) = []
   \<and> post_query company_env (update_request [(''EmpID'', JStr ''70'')] []) =
        ([PkLookup ''Employee''], Response 400 (ErrorBody (refusal [''EmpID''])))
   \<and> refusal [''EmpID''] \<noteq> ''Refusing to UPDATE without WHERE clause''"
  by (simp add: post_query_def operation_switch_def update_request_def company_env_def
      company_pk_def safeUpdates_def fromEntries_def keys_def refusal_def)

text \<open>
  Claim C4, amended. An UPDATE or DELETE request with an empty condition list is always
  rejected with an error response and no statement built from it is run. A DELETE that
  names a table and has valid joins gets \<^verbatim>\<open>Refusing to DELETE without WHERE clause\<close>
  with no storage call at all. An UPDATE first reads the table's primary-key columns from
  the catalog; it gets \<^verbatim>\<open>Refusing to UPDATE without WHERE clause\<close> when a column
  outside the primary key is left in its update set.
\<close>

theorem empty_conditions_rejected:
  assumes "conditions req = []"
    and "operation req = ''UPDATE'' \<or> operation req = ''DELETE''"
  shows "(\<forall>q. Run q \<notin> set (fst (post_query env req)))
       \<and> (\<exists>n msg. snd (post_query env req) = Response n (ErrorBody msg) \<and> 400 \<le> n)
       \<and> (table req \<noteq> [] \<and> apply_joins (has_method env) (db (table req)) (joins req) = Inr q0 \<longrightarrow>
            (operation req = ''DELETE'' \<longrightarrow>
               post_query env req =
                 ([], Response 500 (ErrorBody ''Refusing to DELETE without WHERE clause'')))
          \<and> (operation req = ''UPDATE'' \<and> pk_rows env (table req) = Inr pkCols
               \<and> \<not> set (keys (updates req)) \<subseteq> set pkCols \<longrightarrow>
               post_query env req =
                 ([PkLookup (table req)],
                  Response 500 (ErrorBody ''Refusing to UPDATE without WHERE clause''))))"
proof -
  have norun: "Run q \<notin> set (fst (post_query env req))" for q
    using assms update_run_cases [of req q env] delete_run_cases [of req q env] by auto
  have err: "\<exists>n msg. snd (post_query env req) = Response n (ErrorBody msg) \<and> 400 \<le> n"
    using assms
    by (auto simp: post_query_def operation_switch_def split: sum.splits)
  have del: "post_query env req =
      ([], Response 500 (ErrorBody ''Refusing to DELETE without WHERE clause''))"
    if "table req \<noteq> []" "apply_joins (has_method env) (db (table req)) (joins req) = Inr q0"
      "operation req = ''DELETE''"
    using that assms(1) by (simp add: post_query_def operation_switch_def or_else_def)
  have upd: "post_query env req =
      ([PkLookup (table req)], Response 500 (ErrorBody ''Refusing to UPDATE without WHERE clause''))"
    if "table req \<noteq> []" "apply_joins (has_method env) (db (table req)) (joins req) = Inr q0"
      "operation req = ''UPDATE''" "pk_rows env (table req) = Inr pkCols"
      "\<not> set (keys (updates req)) \<subseteq> set pkCols"
  proof -
    from that(5) have ne: "keys (safeUpdates pkCols (updates req)) \<noteq> []"
      by (simp only: safeUpdates_empty_iff not_False_eq_True)
    from that(5) have "keys (updates req) \<noteq> []" by auto
    with ne that assms(1) show ?thesis
      by (simp add: post_query_def operation_switch_def or_else_def)
  qed
  from norun err del upd show ?thesis by blast
qed

theorem empty_conditions_rejected_witness:
  "conditions (update_request [(''Title'', JStr ''Lead'')] []) = []
   \<and> operation (update_request [(''Title'', JStr ''Lead'')] []) = ''UPDATE''
   \<and> table (update_request [(''Title'', JStr ''Lead'')] []) \<noteq> []
   \<and> pk_rows company_env ''Employee'' = Inr [''EmpID'']
   \<and> \<not> set (keys [(''Title'', JStr ''Lead'')]) \<subseteq> set [''EmpID'']
   \<and> post_query company_env (update_request [(''Title'', JStr ''Lead'')] []) =
        ([PkLookup ''Employee''],
         Response 500 (ErrorBody ''Refusing to UPDATE without WHERE clause''))
   \<and> conditions (delete_like\<lparr>conditions := []\<rparr>) = []
   \<and> operation (delete_like\<lparr>conditions := []\<rparr>) = ''DELETE''
   \<and> post_query company_env (delete_like\<lparr>conditions := []\<rparr>) =
        ([], Response 500 (ErrorBody ''Refusing to DELETE without WHERE clause''))"
proof -
  let ?u = "update_request [(''Title'', JStr ''Lead'')] []"
  let ?d = "delete_like\<lparr>conditions := []\<rparr>"
  have u: "conditions ?u = []" "operation ?u = ''UPDATE'' \<or> operation ?u = ''DELETE''"
    "table ?u \<noteq> [] \<and> apply_joins (has_method company_env) (db (table ?u)) (joins ?u) = Inr (db ''Employee'')"
    "operation ?u = ''UPDATE'' \<and> pk_rows company_env (table ?u) = Inr [''EmpID'']
       \<and> \<not> set (keys (updates ?u)) \<subseteq> set [''EmpID'']"
    by (simp_all add: update_request_def company_env_def company_pk_def keys_def)
  have d: "conditions ?d = []" "operation ?d = ''UPDATE'' \<or> operation ?d = ''DELETE''"
    "table ?d \<noteq> [] \<and> apply_joins (has_method company_env) (db (table ?d)) (joins ?d) = Inr (db ''Person'')"
    "operation ?d = ''DELETE''"
    by (simp_all add: delete_like_def select_like_def)
  from empty_conditions_rejected [OF u(1,2), of company_env "db ''Employee''" "[''EmpID'']"] u(3,4)
  have ru: "post_query company_env ?u =
      ([PkLookup (table ?u)], Response 500 (ErrorBody ''Refusing to UPDATE without WHERE clause''))"
    by blast
  from empty_conditions_rejected [OF d(1,2), of company_env "db ''Person''"] d(3,4)
  have rd: "post_query company_env ?d =
      ([], Response 500 (ErrorBody ''Refusing to DELETE without WHERE clause''))"
    by blast
  from ru rd u d show ?thesis
    by (simp add: update_request_def company_env_def company_pk_def keys_def)
qed

text \<open>
  Claim C3, as stated, fails: the INSERT case strips nothing. A payload that supplies the
  auto-generated key \<^verbatim>\<open>id\<close> of \<^verbatim>\<open>permissions\<close> reaches the engine with that value
  in it, and a payload that holds nothing but the key is run rather than rejected.
\<close>

theorem insert_strips_counterexample:
  "post_query company_env (insert_request [(''id'', JNum 99), (''name'', JStr ''audit'')]) =
     ([insert_run [(''id'', JNum 99), (''name'', JStr ''audit'')]], Response 200 (ResultBody 1))
   \<and> post_query company_env (insert_request [(''id'', JNum 99)]) =
     ([insert_run [(''id'', JNum 99)]], Response 200 (ResultBody 1))"
  by (simp add: post_query_def operation_switch_def execute_def insert_request_def insert_run_def
      company_env_def toInsert_def keys_def db_def)

text \<open>
  Claim C3, amended. An INSERT request that names a table, has valid joins and carries a
  \<^verbatim>\<open>data\<close> object sends that object to the engine as supplied, whatever columns it
  names; it fails with \<^verbatim>\<open>No values supplied for INSERT\<close>, before any storage call,
  exactly when the object has no field.
\<close>

theorem insert_payload_as_supplied:
  assumes "operation req = ''INSERT''" and "table req \<noteq> []"
    and "apply_joins (has_method env) (db (table req)) (joins req) = Inr q0"
    and "data req = Some d"
  shows "(if keys d = []
          then post_query env req = ([], Response 500 (ErrorBody ''No values supplied for INSERT''))
          else fst (post_query env req) = [Run (q0\<lparr>q_action := Insert d\<rparr>)])"
  using assms
  by (simp add: post_query_def operation_switch_def toInsert_def or_else_def execute_calls)

theorem insert_payload_as_supplied_witness:
  "operation (insert_request [(''id'', JNum 99)]) = ''INSERT''
   \<and> table (insert_request [(''id'', JNum 99)]) \<noteq> []
   \<and> data (insert_request [(''id'', JNum 99)]) = Some [(''id'', JNum 99)]
   \<and> keys [(''id'', JNum 99)] \<noteq> []
   \<and> fst (post_query company_env (insert_request [(''id'', JNum 99)])) =
        [Run ((db ''permissions'')\<lparr>q_action := Insert [(''id'', JNum 99)]\<rparr>)]
   \<and> keys ([] :: jsval obj) = []
   \<and> post_query company_env (insert_request []) =
        ([], Response 500 (ErrorBody ''No values supplied for INSERT''))"
proof -
  have a: "operation (insert_request d) = ''INSERT''" "table (insert_request d) \<noteq> []"
    "apply_joins (has_method company_env) (db (table (insert_request d))) (joins (insert_request d))
       = Inr (db ''permissions'')"
    "data (insert_request d) = Some d" for d
    by (simp_all add: insert_request_def)
  from insert_payload_as_supplied [OF a, of "[(''id'', JNum 99)]"]
    insert_payload_as_supplied [OF a, of "[]"] a
  show ?thesis by (simp add: keys_def)
qed

text \<open>
  Claim C6. When the engine refuses the DELETE statement with one of its row-is-referenced
  codes, the handler answers 409, not 500, with a structured body that carries the engine's
  message (the text that names the blocking table and constraint) in \<^verbatim>\<open>detail\<close>; the
  refused statement is the only storage call of the request, so the handler itself deletes
  nothing.
\<close>

theorem delete_conflict_is_409:
  assumes "operation req = ''DELETE''" and "table req \<noteq> []" and "conditions req \<noteq> []"
    and "apply_joins (has_method env) (db (table req)) (joins req) = Inr q0"
    and "run env ((plain_wheres (conditions req) q0)\<lparr>q_action := Delete\<rparr>) = Inl e"
    and "err_code e = ''ER_ROW_IS_REFERENCED_2'' \<or> err_code e = ''ER_ROW_IS_REFERENCED''"
  shows "post_query env req =
           ([Run ((plain_wheres (conditions req) q0)\<lparr>q_action := Delete\<rparr>)],
            Response 409 (ErrorDetailBody ''Delete blocked by foreign-key constraint'' (err_message e)))"
  using assms
  by (auto simp: post_query_def operation_switch_def execute_def)

theorem delete_conflict_is_409_witness:
  "operation delete_department = ''DELETE'' \<and> table delete_department \<noteq> []
   \<and> conditions delete_department \<noteq> []
   \<and> err_code row_is_referenced = ''ER_ROW_IS_REFERENCED_2''
   \<and> post_query referenced_env delete_department =
        ([Run \<lparr>q_table = ''Department'', q_joins = [], q_action = Delete,
               q_wheres = [(''DeptID'', ''='', JNum 3)]\<rparr>],
         Response 409 (ErrorDetailBody ''Delete blocked by foreign-key constraint''
           (err_message row_is_referenced)))"
proof -
  have a: "operation delete_department = ''DELETE''" "table delete_department \<noteq> []"
    "conditions delete_department \<noteq> []"
    "apply_joins (has_method referenced_env) (db (table delete_department)) (joins delete_department)
       = Inr (db ''Department'')"
    by (simp_all add: delete_department_def)
  have b: "run referenced_env q = Inl row_is_referenced" for q
    by (simp add: referenced_env_def)
  have c: "err_code row_is_referenced = ''ER_ROW_IS_REFERENCED_2'' \<or>
           err_code row_is_referenced = ''ER_ROW_IS_REFERENCED''"
    by (simp add: row_is_referenced_def)
  from delete_conflict_is_409 [OF a b c] a c
  show ?thesis
    by (simp add: delete_department_def plain_wheres_eq db_def row_is_referenced_def)
qed

section \<open>The count endpoints\<close>

lemma post_count_rejects:
  "validConds cs = [] \<Longrightarrow> \<exists>msg. post_count env t cs = ([], Response 400 (ErrorBody msg))"
  by (simp add: post_count_def)

lemma get_count_without_conditions:
  "t \<noteq> [] \<Longrightarrow> fst (get_count env t None) = [Run ((db t)\<lparr>q_action := Count\<rparr>)]"
  by (simp add: get_count_def count_query_def Let_def split: sum.splits)

text \<open>
  Claim C8, at its failing input. A count of \<^verbatim>\<open>Sale_Line\<close> with no conditions is
  rejected by \<^verbatim>\<open>POST /count\<close> with a 400, while \<^verbatim>\<open>GET /count\<close> on the same table
  runs \<^verbatim>\<open>count(*)\<close> with no WHERE clause and answers with the size of the whole
  table (40 rows in the example engine).
\<close>

theorem get_count_counts_whole_table:
  "post_count company_env ''Sale_Line'' [] =
     ([], Response 400 (ErrorBody ''No valid conditions supplied''))
   \<and> get_count company_env ''Sale_Line'' None =
     ([Run \<lparr>q_table = ''Sale_Line'', q_joins = [], q_action = Count, q_wheres = []\<rparr>],
      Response 200 (CountBody 40))"
  by (simp add: post_count_def get_count_def count_query_def validConds_def company_env_def db_def)

section \<open>The cascade path of the client\<close>

lemma set_referencingTables:
  "set (referencingTables sch sel pks) =
     {\<lparr>tableName = name t, ref_fromColumn = rel_fromColumn rel, ref_toColumn = rel_toColumn rel\<rparr>
        | t rel. t \<in> set sch \<and> name t \<noteq> sel \<and> rel \<in> set (relationships t)
            \<and> rel_table rel = sel \<and> rel_toColumn rel \<in> set pks}"
  by (auto simp: referencingTables_def)

lemma set_reference_updates:
  "set (reference_updates orig ups r) =
     {reference_update r v (js_get orig f) | f v. (f, v) \<in> set ups \<and> ref_toColumn r = f}"
  by (auto simp: reference_updates_def)

lemma set_cascade_body:
  "set (concat (map (reference_updates orig ups) (referencingTables sch sel pks))) =
     {reference_update
        \<lparr>tableName = name t, ref_fromColumn = rel_fromColumn rel, ref_toColumn = rel_toColumn rel\<rparr>
        v (js_get orig f)
        | t rel f v. t \<in> set sch \<and> name t \<noteq> sel \<and> rel \<in> set (relationships t)
            \<and> rel_table rel = sel \<and> rel_toColumn rel \<in> set pks
            \<and> (f, v) \<in> set ups \<and> rel_toColumn rel = f}" (is "?L = ?R")
proof (intro set_eqI iffI)
  fix x assume "x \<in> ?L"
  then obtain r where r: "r \<in> set (referencingTables sch sel pks)"
    and x: "x \<in> set (reference_updates orig ups r)" by auto
  from r obtain t rel where tr: "t \<in> set sch" "name t \<noteq> sel" "rel \<in> set (relationships t)"
      "rel_table rel = sel" "rel_toColumn rel \<in> set pks"
      "r = \<lparr>tableName = name t, ref_fromColumn = rel_fromColumn rel, ref_toColumn = rel_toColumn rel\<rparr>"
    unfolding set_referencingTables by blast
  from x obtain f v where fv: "(f, v) \<in> set ups" "ref_toColumn r = f"
      "x = reference_update r v (js_get orig f)"
    unfolding set_reference_updates by blast
  from fv(2) tr(6) have "rel_toColumn rel = f" by simp
  with tr fv show "x \<in> ?R" by blast
next
  fix x assume "x \<in> ?R"
  then obtain t rel f v where tr: "t \<in> set sch" "name t \<noteq> sel" "rel \<in> set (relationships t)"
      "rel_table rel = sel" "rel_toColumn rel \<in> set pks" "(f, v) \<in> set ups" "rel_toColumn rel = f"
      and x: "x = reference_update
        \<lparr>tableName = name t, ref_fromColumn = rel_fromColumn rel, ref_toColumn = rel_toColumn rel\<rparr>
        v (js_get orig f)" by blast
  let ?r = "\<lparr>tableName = name t, ref_fromColumn = rel_fromColumn rel, ref_toColumn = rel_toColumn rel\<rparr>"
  from tr have "?r \<in> set (referencingTables sch sel pks)"
    unfolding set_referencingTables by blast
  moreover from tr x have "x \<in> set (reference_updates orig ups ?r)"
    unfolding set_reference_updates by auto
  ultimately show "x \<in> ?L" by auto
qed

text \<open>
  Claim C1, as stated, fails. In Scenario A the schema is the Employee table with its
  self-reference. The loops that collect the referencing tables skip the selected table,
  so nothing references \<^verbatim>\<open>EmpID\<close> for them: no cascade script is sent, the request
  goes to \<^verbatim>\<open>/query\<close> with the key removed from its update set, and the server answers
  with the 400 refusal; neither the \<^verbatim>\<open>SupervisorID\<close> rows nor the Employee row
  change. With the Sale table in the schema a script is sent; it rewrites
  \<^verbatim>\<open>Sale.EmpID\<close> and the Employee row and has no statement for
  \<^verbatim>\<open>Employee.SupervisorID\<close>.
\<close>

theorem self_reference_counterexample:
  "runQuery (employee_client [employee_table] (JStr ''70'')) =
     PostQuery (update_request [] [employee_cond])
   \<and> post_query company_env (update_request [] [employee_cond]) =
     ([PkLookup ''Employee''], Response 400 (ErrorBody (refusal [''EmpID''])))
   \<and> runQuery (employee_client [employee_table, sale_table] (JStr ''70'')) =
     PostSql (concat
       [sql_begin,
        reference_update sale_reference (JStr ''70'') (JStr ''7''),
        main_update ''Employee'' [(''EmpID'', JStr ''70'')] [employee_cond]])"
  by (simp add: runQuery_def getCurrentTableSchema_def updatedPKs_def referencingTables_def
      buildQuery_def getKeyFields_def validConditions_def cascade_sql_def cascade_pieces_def
      reference_updates_def employee_client_def employee_table_def sale_table_def
      sale_reference_def employee_cond_def update_request_def js_get_def fromEntries_def
      post_query_def operation_switch_def company_env_def company_pk_def safeUpdates_def
      keys_def)

text \<open>
  Claim C1, amended. For an UPDATE that changes a primary-key value with
  \<^verbatim>\<open>updateReferences\<close> set: when some other table holds a foreign key to a changed
  key column, the client sends one script that opens with
  \<^verbatim>\<open>SET foreign_key_checks = 0; START TRANSACTION;\<close>, then holds exactly the updates
  of the referencing columns of the other tables from the old to the new value, and ends
  with the update of the table itself followed by \<^verbatim>\<open>COMMIT\<close>. Relationships of the
  table to itself are not followed; when no other table references the changed key, no
  script is sent and the request of \<^verbatim>\<open>buildQuery\<close> goes to \<^verbatim>\<open>/query\<close>.
\<close>

theorem cascade_script_covers_other_tables:
  assumes "getCurrentTableSchema c = Some ts"
    and "updatedPKs c ts \<noteq> []"
    and "updateReferences c"
  shows "(if referencingTables (schema c) (selectedTable c) (map fst (updatedPKs c ts)) = []
          then runQuery c = PostQuery (buildQuery c)
          else \<exists>body.
            runQuery c =
              PostSql (concat (sql_begin # body @
                [main_update (selectedTable c) (updatedPKs c ts) (client_conditions c)]))
            \<and> set body =
              {reference_update
                 \<lparr>tableName = name t, ref_fromColumn = rel_fromColumn rel,
                   ref_toColumn = rel_toColumn rel\<rparr> v (js_get (originalValues c) f)
                 | t rel f v. t \<in> set (schema c) \<and> name t \<noteq> selectedTable c
                     \<and> rel \<in> set (relationships t) \<and> rel_table rel = selectedTable c
                     \<and> (f, v) \<in> set (updatedPKs c ts) \<and> rel_toColumn rel = f})"
proof (cases "referencingTables (schema c) (selectedTable c) (map fst (updatedPKs c ts)) = []")
  case True
  with assms show ?thesis by (simp add: runQuery_def Let_def)
next
  case False
  let ?ups = "updatedPKs c ts"
  let ?body = "concat (map (reference_updates (originalValues c) ?ups)
     (referencingTables (schema c) (selectedTable c) (map fst ?ups)))"
  have run: "runQuery c = PostSql (concat (sql_begin # ?body @
                [main_update (selectedTable c) ?ups (client_conditions c)]))"
    using assms False by (simp add: runQuery_def cascade_sql_def cascade_pieces_def Let_def)
  have body: "set ?body =
      {reference_update
         \<lparr>tableName = name t, ref_fromColumn = rel_fromColumn rel,
           ref_toColumn = rel_toColumn rel\<rparr> v (js_get (originalValues c) f)
         | t rel f v. t \<in> set (schema c) \<and> name t \<noteq> selectedTable c
             \<and> rel \<in> set (relationships t) \<and> rel_table rel = selectedTable c
             \<and> (f, v) \<in> set ?ups \<and> rel_toColumn rel = f}"
    unfolding set_cascade_body by force
  show ?thesis
    unfolding if_not_P [OF False]
    apply (rule exI [of _ ?body])
    apply (rule conjI [OF run body])
    done
qed

theorem cascade_script_covers_other_tables_witness:
  "getCurrentTableSchema (employee_client [employee_table, sale_table] (JStr ''70'')) = Some employee_table
   \<and> updatedPKs (employee_client [employee_table, sale_table] (JStr ''70'')) employee_table
       = [(''EmpID'', JStr ''70'')]
   \<and> updateReferences (employee_client [employee_table, sale_table] (JStr ''70''))
   \<and> referencingTables [employee_table, sale_table] ''Employee'' [''EmpID''] = [sale_reference]
   \<and> (\<exists>body. runQuery (employee_client [employee_table, sale_table] (JStr ''70'')) =
         PostSql (concat (sql_begin # body @
           [main_update ''Employee'' [(''EmpID'', JStr ''70'')] [employee_cond]]))
       \<and> reference_update sale_reference (JStr ''70'') (JStr ''7'') \<in> set body)"
proof -
  let ?c = "employee_client [employee_table, sale_table] (JStr ''70'')"
  have a: "getCurrentTableSchema ?c = Some employee_table"
    by (simp add: getCurrentTableSchema_def employee_client_def employee_table_def)
  have u: "updatedPKs ?c employee_table = [(''EmpID'', JStr ''70'')]"
    by (simp add: updatedPKs_def employee_client_def employee_table_def js_get_def)
  have b: "updatedPKs ?c employee_table \<noteq> []" by (simp add: u)
  have r: "updateReferences ?c" by (simp add: employee_client_def)
  have refs: "referencingTables [employee_table, sale_table] ''Employee'' [''EmpID''] = [sale_reference]"
    by (simp add: referencingTables_def employee_table_def sale_table_def sale_reference_def)
  have sel: "selectedTable ?c = ''Employee''" "schema ?c = [employee_table, sale_table]"
    "client_conditions ?c = [employee_cond]" "js_get (originalValues ?c) ''EmpID'' = JStr ''7''"
    by (simp_all add: employee_client_def js_get_def)
  have st: "name sale_table = ''Sale''"
    "relationships sale_table =
       [\<lparr>rel_table = ''Employee'', rel_fromColumn = ''EmpID'', rel_toColumn = ''EmpID''\<rparr>]"
    by (simp_all add: sale_table_def)
  from cascade_script_covers_other_tables [OF a b r]
  obtain body where run: "runQuery ?c = PostSql (concat (sql_begin # body @
           [main_update ''Employee'' [(''EmpID'', JStr ''70'')] [employee_cond]]))"
    and body: "set body =
              {reference_update
                 \<lparr>tableName = name t, ref_fromColumn = rel_fromColumn rel,
                   ref_toColumn = rel_toColumn rel\<rparr> v (js_get (originalValues ?c) f)
                 | t rel f v. t \<in> set (schema ?c) \<and> name t \<noteq> selectedTable ?c
                     \<and> rel \<in> set (relationships t) \<and> rel_table rel = selectedTable ?c
                     \<and> (f, v) \<in> set (updatedPKs ?c employee_table) \<and> rel_toColumn rel = f}"
    unfolding u sel(1,3) using refs by (auto simp: u sel)
  have "reference_update sale_reference (JStr ''70'') (JStr ''7'') \<in> set body"
    unfolding body u sel
    apply (rule CollectI)
    apply (rule exI [of _ sale_table])
    apply (rule exI [of _ "\<lparr>rel_table = ''Employee'', rel_fromColumn = ''EmpID'', rel_toColumn = ''EmpID''\<rparr>"])
    apply (rule exI [of _ "''EmpID''"])
    apply (rule exI [of _ "JStr ''70''"])
    apply (simp add: st sale_reference_def sel)
    done
  with run a u r refs show ?thesis by blast
qed

lemma post_sql_runs_text:
  "s \<noteq> [] \<Longrightarrow> fst (post_sql env (JStr s)) = [RunRaw s]"
  by (simp split: sum.splits)

text \<open>
  Claim C5, at its failing input. The cascade path writes the caller's values into the
  statement text: two requests that differ only in the new key value give two different
  scripts, a value with a quote in it closes the literal and continues as SQL, and
  \<^verbatim>\<open>POST /sql\<close> hands the text it receives to the engine as it is.
\<close>

theorem cascade_text_carries_values:
  "runQuery (employee_client [employee_table, sale_table] (JStr ''70'')) \<noteq>
   runQuery (employee_client [employee_table, sale_table] (JStr ''71''))
   \<and> runQuery (employee_client [employee_table, sale_table] (JStr hostile_id)) =
     PostSql (concat
       [sql_begin,
        ''\<newline>                      UPDATE `Sale` \<newline>                      SET `EmpID` = ''
          @ [CHR 0x27] @ ''70'' @ [CHR 0x27] @ ''; DROP TABLE Sale; -- '' @ [CHR 0x27]
          @ '' \<newline>                      WHERE `EmpID` = '' @ [CHR 0x27] @ ''7'' @ [CHR 0x27]
          @ '';\<newline>                    '',
        main_update ''Employee'' [(''EmpID'', JStr hostile_id)] [employee_cond]])
   \<and> (case runQuery (employee_client [employee_table, sale_table] (JStr hostile_id)) of
         PostSql s \<Rightarrow> post_sql company_env (JStr s) = ([RunRaw s], Response 200 (SqlSuccess 0))
       | _ \<Rightarrow> False)"
  by (simp add: runQuery_def getCurrentTableSchema_def updatedPKs_def referencingTables_def
      cascade_sql_def cascade_pieces_def reference_updates_def reference_update_def quoted_def
      main_update_def setClause_def whereClause_def sql_begin_def hostile_id_def
      employee_client_def employee_table_def sale_table_def employee_cond_def js_get_def
      company_env_def)

section \<open>The schema description\<close>

lemma split_on_no_sep: "sep \<notin> set s \<Longrightarrow> split_on sep s = (s, [])"
  by (induction s) auto

lemma split_on_append:
  "sep \<notin> set a \<Longrightarrow> split_on sep (a @ sep # r) = (a, split sep r)"
  by (induction a) (auto simp: split_def split: prod.splits)

lemma split_no_sep: "sep \<notin> set s \<Longrightarrow> split sep s = [s]"
  by (simp add: split_def split_on_no_sep)

lemma split_append: "sep \<notin> set a \<Longrightarrow> split sep (a @ sep # r) = a # split sep r"
  by (simp add: split_def split_on_append)

lemma split_join:
  "xs \<noteq> [] \<Longrightarrow> \<forall>x \<in> set xs. sep \<notin> set x \<Longrightarrow> split sep (join_with [sep] xs) = xs"
  by (induction "[sep]" xs rule: join_with.induct) (auto simp: split_no_sep split_append)

lemma pieces_group_concat:
  assumes "\<forall>x \<in> set xs. x \<noteq> [] \<and> CHR '','' \<notin> set x"
    and "length (join_with '','' xs) \<le> max_len"
  shows "pieces (group_concat max_len xs) = xs"
proof (cases "xs = []")
  case True
  then show ?thesis by (simp add: pieces_def group_concat_def split_def)
next
  case False
  with assms have "split (CHR '','') (join_with '','' xs) = xs"
    by (intro split_join) auto
  with False assms show ?thesis
    by (simp add: pieces_def group_concat_def filter_id_conv)
qed

lemma col_name_parse:
  "CHR '':'' \<notin> set (COLUMN_NAME c) \<Longrightarrow> col_name (parse_column (column_detail c)) = COLUMN_NAME c"
  by (simp add: parse_column_def column_detail_def split_on_append)

lemma fk_fromColumn_parse:
  "CHR '':'' \<notin> set (REFERENCED_TABLE_NAME k) \<Longrightarrow> CHR '':'' \<notin> set (FK_COLUMN_NAME k) \<Longrightarrow>
     fk_fromColumn (parse_fk (fk_detail k)) = Some (FK_COLUMN_NAME k)"
  by (simp add: parse_fk_def fk_detail_def split_on_append split_append)

lemma obj_set_fresh: "k \<notin> fst ` set ob \<Longrightarrow> obj_set k v ob = ob @ [(k, v)]"
  by (induction ob) auto

lemma foldl_obj_set_distinct:
  "distinct (map fst (acc @ es)) \<Longrightarrow>
     foldl (\<lambda>acc e. obj_set (fst e) (snd e) acc) acc es = acc @ es"
proof (induction es arbitrary: acc)
  case Nil
  then show ?case by simp
next
  case (Cons e es)
  from Cons.prems have "fst e \<notin> fst ` set acc" by auto
  then have "obj_set (fst e) (snd e) acc = acc @ [e]" by (simp add: obj_set_fresh)
  moreover from Cons.prems have "distinct (map fst ((acc @ [e]) @ es))" by simp
  ultimately show ?case using Cons.IH [of "acc @ [e]"] by simp
qed

lemma fromEntries_distinct: "distinct (map fst es) \<Longrightarrow> fromEntries es = es"
  using foldl_obj_set_distinct [of "[]" es] by (simp add: fromEntries_def)

lemma pkMap_pk_query:
  assumes "distinct (map TABLE_NAME cat)"
  shows "pkMap (pk_query max_len cat) =
     map (\<lambda>t. (TABLE_NAME t, split (CHR '','') (take max_len (join_with '','' (cat_primary t)))))
       (filter (\<lambda>t. cat_primary t \<noteq> []) cat)"
proof -
  have "distinct (map TABLE_NAME (filter (\<lambda>t. cat_primary t \<noteq> []) cat))"
    using assms by (rule distinct_map_filter)
  then show ?thesis
    by (simp add: pkMap_def pk_query_def fromEntries_distinct comp_def)
qed

lemma map_of_by_name:
  assumes "distinct (map TABLE_NAME cat)" and "t \<in> set cat"
  shows "map_of (map (\<lambda>t. (TABLE_NAME t, f t)) (filter P cat)) (TABLE_NAME t) =
     (if P t then Some (f t) else None)"
  using assms
proof (induction cat)
  case Nil
  then show ?case by simp
next
  case (Cons a cat)
  show ?case
  proof (cases "a = t")
    case True
    with Cons.prems have "TABLE_NAME t \<notin> TABLE_NAME ` set cat" by auto
    then have "map_of (map (\<lambda>t. (TABLE_NAME t, f t)) (filter P cat)) (TABLE_NAME t) = None"
      by (auto simp: map_of_eq_None_iff)
    with True show ?thesis by simp
  next
    case False
    with Cons.prems have "t \<in> set cat" "TABLE_NAME a \<noteq> TABLE_NAME t" by auto
    with Cons show ?thesis by simp
  qed
qed

lemma primaryKeys_described:
  assumes "distinct (map TABLE_NAME cat)" and "t \<in> set cat"
    and "\<forall>p \<in> set (cat_primary t). CHR '','' \<notin> set p"
    and "length (join_with '','' (cat_primary t)) \<le> max_len"
    and "plain_name t"
  shows "(case get_property (pkMap (pk_query max_len cat)) (TABLE_NAME t) of
            Own ks \<Rightarrow> KeyList ks
          | Inherited m \<Rightarrow> PrototypeMember m
          | Absent \<Rightarrow> KeyList []) = KeyList (cat_primary t)"
proof (cases "cat_primary t = []")
  case True
  with assms(5) have "TABLE_NAME t \<notin> set object_prototype_members"
    by (simp add: plain_name_def)
  with True assms(1,2) show ?thesis
    by (simp add: get_property_def pkMap_pk_query map_of_by_name)
next
  case False
  with assms(3) have "split (CHR '','') (join_with '','' (cat_primary t)) = cat_primary t"
    by (intro split_join) auto
  with False assms(1,2,4) show ?thesis
    by (simp add: get_property_def pkMap_pk_query map_of_by_name)
qed

lemma columns_described:
  assumes "list_all (\<lambda>c. clean_name (COLUMN_NAME c) \<and> no_comma (DATA_TYPE c)
                   \<and> no_comma (coalesce (CHARACTER_MAXIMUM_LENGTH c)) \<and> no_comma (IS_NULLABLE c)
                   \<and> no_comma (coalesce (COLUMN_DEFAULT c)) \<and> no_comma (coalesce (EXTRA c))) cols"
    and "length (join_with '','' (remdups (map column_detail cols))) \<le> max_len"
  shows "set (map col_name (map parse_column
            (pieces (group_concat max_len (remdups (map column_detail cols))))))
           = set (map COLUMN_NAME cols)"
proof -
  have ok: "\<forall>x \<in> set (remdups (map column_detail cols)). x \<noteq> [] \<and> CHR '','' \<notin> set x"
    using assms(1) by (auto simp: list_all_iff column_detail_def clean_name_def no_comma_def)
  have "col_name (parse_column (column_detail c)) = COLUMN_NAME c" if "c \<in> set cols" for c
    using that assms(1) by (auto simp: list_all_iff clean_name_def intro: col_name_parse)
  then show ?thesis
    unfolding pieces_group_concat [OF ok assms(2)] by (auto simp: image_iff)
qed

lemma relationships_described:
  assumes "list_all (\<lambda>k. clean_name (REFERENCED_TABLE_NAME k) \<and> clean_name (FK_COLUMN_NAME k)
                   \<and> no_comma (REFERENCED_COLUMN_NAME k) \<and> FK_COLUMN_NAME k \<in> names) fks"
    and "length (join_with '','' (remdups (map fk_detail fks))) \<le> max_len"
    and "fk \<in> set (map parse_fk (pieces (group_concat max_len (remdups (map fk_detail fks)))))"
  shows "\<exists>f. fk_fromColumn fk = Some f \<and> f \<in> names"
proof -
  have ok: "\<forall>x \<in> set (remdups (map fk_detail fks)). x \<noteq> [] \<and> CHR '','' \<notin> set x"
    using assms(1) by (auto simp: list_all_iff fk_detail_def clean_name_def no_comma_def)
  from assms(3) obtain k where k: "k \<in> set fks" "fk = parse_fk (fk_detail k)"
    unfolding pieces_group_concat [OF ok assms(2)] by auto
  with assms(1) have "fk_fromColumn fk = Some (FK_COLUMN_NAME k)" "FK_COLUMN_NAME k \<in> names"
    by (auto simp: list_all_iff clean_name_def intro: fk_fromColumn_parse)
  then show ?thesis by blast
qed

text \<open>
  Claim C7, as stated, fails. A table without a PRIMARY KEY constraint has no row in the
  second query, and the handler describes it with an empty \<^verbatim>\<open>primaryKeys\<close>. Two
  further inputs break the subset part: the column details of the 30-column table exceed
  \<^verbatim>\<open>group_concat_max_len\<close>, the cut string loses the key column, and the key is then
  not among the described columns; and for the key-less table called
  \<^verbatim>\<open>constructor\<close> the lookup in \<^verbatim>\<open>pkMap\<close> finds the inherited member, so
  \<^verbatim>\<open>primaryKeys\<close> is no list of columns at all.
\<close>

theorem primary_keys_nonempty_counterexample:
  "(case describeSchema default_group_concat_max_len [employee_catalog, audit_log_catalog] of
      (status, Inr entries) \<Rightarrow>
        status = 200 \<and> map se_name entries = [''Employee'', ''audit_log'']
        \<and> map se_primaryKeys entries = [KeyList [''EmpID''], KeyList []]
    | (status, Inl msg) \<Rightarrow> False)
   \<and> (case describeSchema default_group_concat_max_len [wide_catalog] of
      (status, Inr entries) \<Rightarrow>
        map se_primaryKeys entries = [KeyList [''Quarterly_Revenue_Adjustment_29'']]
        \<and> list_all (\<lambda>T. ''Quarterly_Revenue_Adjustment_29'' \<notin> set (map col_name (se_columns T))) entries
    | (status, Inl msg) \<Rightarrow> False)
   \<and> (case describeSchema default_group_concat_max_len [constructor_catalog] of
      (status, Inr entries) \<Rightarrow>
        map se_primaryKeys entries = [PrototypeMember ''constructor'']
    | (status, Inl msg) \<Rightarrow> False)"
  by code_simp

text \<open>
  Claim C7, amended. Take a catalog whose column, table and key names hold neither a comma
  nor a colon (and whose other selected fields hold no comma), in which the concatenated
  column details, foreign keys and key columns of each table fit in
  \<^verbatim>\<open>group_concat_max_len\<close>, and in which no table without a primary key is named like
  a member of \<^verbatim>\<open>Object.prototype\<close>. Then every table description that
  \<^verbatim>\<open>GET /schema\<close> produces belongs to a catalog table of the same name; its
  \<^verbatim>\<open>primaryKeys\<close> is the list of that table's PRIMARY KEY columns, empty when the
  table has no primary key, and these are names of its \<^verbatim>\<open>columns\<close>; every
  \<^verbatim>\<open>fromColumn\<close> of its \<^verbatim>\<open>relationships\<close> is a name of its \<^verbatim>\<open>columns\<close>.
\<close>

theorem described_keys_are_columns:
  assumes "well_formed max_len cat"
  shows "\<exists>entries. describeSchema max_len cat = (200, Inr entries)
     \<and> (\<forall>T \<in> set entries.
          (\<exists>t \<in> set cat. se_name T = TABLE_NAME t \<and> se_primaryKeys T = KeyList (cat_primary t)
              \<and> set (cat_primary t) \<subseteq> set (map col_name (se_columns T)))
          \<and> (\<forall>fk \<in> set (se_relationships T).
                \<exists>f. fk_fromColumn fk = Some f \<and> f \<in> set (map col_name (se_columns T))))"
    (is "\<exists>entries. _ \<and> (\<forall>T \<in> set entries. ?P T)")
proof -
  let ?describe = "\<lambda>t. describe_table (pkMap (pk_query max_len cat))
      \<lparr>table_name = TABLE_NAME t,
       column_details = group_concat max_len (remdups (map column_detail (cat_columns t))),
       foreign_keys = group_concat max_len (remdups (map fk_detail (cat_foreign_keys t)))\<rparr>"
  have run: "describeSchema max_len cat = (200, Inr (map ?describe cat))"
    by (simp add: describeSchema_def get_schema_def tables_query_def comp_def)
  have each: "se_name (?describe t) = TABLE_NAME t
      \<and> se_primaryKeys (?describe t) = KeyList (cat_primary t)
      \<and> set (cat_primary t) \<subseteq> set (map col_name (se_columns (?describe t)))
      \<and> (\<forall>fk \<in> set (se_relationships (?describe t)).
            \<exists>f. fk_fromColumn fk = Some f \<and> f \<in> set (map col_name (se_columns (?describe t))))"
    if t: "t \<in> set cat" for t
  proof -
    from assms t have wf: "well_formed_table t" and fit: "fits max_len t" and pn: "plain_name t"
      and d: "distinct (map TABLE_NAME cat)"
      by (auto simp: well_formed_def list_all_iff)
    from wf have cols: "list_all (\<lambda>c. clean_name (COLUMN_NAME c) \<and> no_comma (DATA_TYPE c)
                   \<and> no_comma (coalesce (CHARACTER_MAXIMUM_LENGTH c)) \<and> no_comma (IS_NULLABLE c)
                   \<and> no_comma (coalesce (COLUMN_DEFAULT c)) \<and> no_comma (coalesce (EXTRA c)))
        (cat_columns t)"
      and fks: "list_all (\<lambda>k. clean_name (REFERENCED_TABLE_NAME k) \<and> clean_name (FK_COLUMN_NAME k)
                   \<and> no_comma (REFERENCED_COLUMN_NAME k)
                   \<and> FK_COLUMN_NAME k \<in> set (map COLUMN_NAME (cat_columns t)))
        (cat_foreign_keys t)"
      and pks: "list_all (\<lambda>p. clean_name p \<and> p \<in> set (map COLUMN_NAME (cat_columns t))) (cat_primary t)"
      by (simp_all add: well_formed_table_def)
    from fit have fc: "length (join_with '','' (remdups (map column_detail (cat_columns t)))) \<le> max_len"
      and ff: "length (join_with '','' (remdups (map fk_detail (cat_foreign_keys t)))) \<le> max_len"
      and fp: "length (join_with '','' (cat_primary t)) \<le> max_len"
      by (simp_all add: fits_def)
    have names: "set (map col_name (se_columns (?describe t))) = set (map COLUMN_NAME (cat_columns t))"
      using columns_described [OF cols fc] by (simp add: describe_table_def Let_def)
    from pks have "\<forall>p \<in> set (cat_primary t). CHR '','' \<notin> set p"
      by (auto simp: list_all_iff clean_name_def)
    from primaryKeys_described [OF d t this fp pn]
    have pk: "se_primaryKeys (?describe t) = KeyList (cat_primary t)"
      by (simp add: describe_table_def Let_def)
    from pks have sub: "set (cat_primary t) \<subseteq> set (map COLUMN_NAME (cat_columns t))"
      by (auto simp: list_all_iff)
    have rel: "\<exists>f. fk_fromColumn fk = Some f \<and> f \<in> set (map COLUMN_NAME (cat_columns t))"
      if "fk \<in> set (se_relationships (?describe t))" for fk
      using relationships_described [OF fks ff, of fk] that by (simp add: describe_table_def Let_def)
    have "se_name (?describe t) = TABLE_NAME t" by (simp add: describe_table_def Let_def)
    with pk sub rel show ?thesis unfolding names by auto
  qed
  have "\<forall>T \<in> set (map ?describe cat). ?P T"
  proof
    fix T assume "T \<in> set (map ?describe cat)"
    then obtain t where t: "t \<in> set cat" and T: "T = ?describe t" by auto
    from each [OF t] t show "?P T" unfolding T by blast
  qed
  with run show ?thesis by blast
qed

lemma example_primary_keys:
  "(case describeSchema default_group_concat_max_len [employee_catalog, audit_log_catalog] of
      (status, Inr entries) \<Rightarrow> map se_primaryKeys entries = [KeyList [''EmpID''], KeyList []]
    | (status, Inl msg) \<Rightarrow> False)"
  by code_simp

theorem described_keys_are_columns_witness:
  "well_formed default_group_concat_max_len [employee_catalog, audit_log_catalog]
   \<and> (case describeSchema default_group_concat_max_len [employee_catalog, audit_log_catalog] of
        (status, Inr entries) \<Rightarrow>
          map se_primaryKeys entries = [KeyList [''EmpID''], KeyList []]
          \<and> list_all (\<lambda>T. case se_primaryKeys T of
                KeyList ks \<Rightarrow> set ks \<subseteq> set (map col_name (se_columns T))
              | PrototypeMember m \<Rightarrow> False) entries
          \<and> list_all (\<lambda>T. list_all (\<lambda>fk. case fk_fromColumn fk of
                Some f \<Rightarrow> f \<in> set (map col_name (se_columns T)) | None \<Rightarrow> False)
              (se_relationships T)) entries
      | (status, Inl msg) \<Rightarrow> False)"
proof -
  let ?cat = "[employee_catalog, audit_log_catalog]"
  let ?n = default_group_concat_max_len
  have wf: "well_formed ?n ?cat"
    by code_simp
  from described_keys_are_columns [OF wf]
  obtain entries where run: "describeSchema ?n ?cat = (200, Inr entries)"
    and all: "\<forall>T \<in> set entries.
          (\<exists>t \<in> set ?cat. se_name T = TABLE_NAME t \<and> se_primaryKeys T = KeyList (cat_primary t)
              \<and> set (cat_primary t) \<subseteq> set (map col_name (se_columns T)))
          \<and> (\<forall>fk \<in> set (se_relationships T).
                \<exists>f. fk_fromColumn fk = Some f \<and> f \<in> set (map col_name (se_columns T)))"
    by blast
  have keys: "map se_primaryKeys entries = [KeyList [''EmpID''], KeyList []]"
    using example_primary_keys unfolding run by simp
  from all have "list_all (\<lambda>T. case se_primaryKeys T of
                KeyList ks \<Rightarrow> set ks \<subseteq> set (map col_name (se_columns T))
              | PrototypeMember m \<Rightarrow> False) entries"
    unfolding list_all_iff by (fastforce split: keys_value.splits)
  moreover from all have "list_all (\<lambda>T. list_all (\<lambda>fk. case fk_fromColumn fk of
                Some f \<Rightarrow> f \<in> set (map col_name (se_columns T)) | None \<Rightarrow> False)
              (se_relationships T)) entries"
    unfolding list_all_iff by (fastforce split: option.splits)
  ultimately show ?thesis using wf keys unfolding run by simp
qed

end
